theory Spec2Isabelle
  imports Complex_Main "HOL-Library.AList"
begin

section \<open>JavaScript values used by the screens\<close>

text \<open>
  Values that cross the network or the local store are JSON.  An object is an association
  list in property order; a property read that finds nothing is \<open>None\<close> (JavaScript's
  \<open>undefined\<close>).  Numbers are rationals: every finite double is one.
\<close>

datatype json =
    JNull
  | JBool bool
  | JNum rat
  | JStr string
  | JArr "json list"
  | JObj "(string \<times> json) list"

text \<open>A thrown value.  Every value thrown in these screens is an \<open>Error\<close> instance
  carrying a message.\<close>

datatype js_error =
    NetworkError string
  | SyntaxError string
  | TypeError string
  | Error string

fun message :: "js_error \<Rightarrow> string" where
  "message (NetworkError m) = m"
| "message (SyntaxError m) = m"
| "message (TypeError m) = m"
| "message (Error m) = m"

text \<open>A settled promise.\<close>

datatype 'a outcome = Rejected js_error | Fulfilled 'a

text \<open>Truthiness, as used by \<open>!\<close>, \<open>&&\<close>, \<open>||\<close> and \<open>?:\<close>.\<close>

fun truthy :: "json \<Rightarrow> bool" where
  "truthy JNull = False"
| "truthy (JBool b) = b"
| "truthy (JNum n) = (n \<noteq> 0)"
| "truthy (JStr s) = (s \<noteq> [])"
| "truthy (JArr _) = True"
| "truthy (JObj _) = True"

definition truthy_opt :: "json option \<Rightarrow> bool" where
  "truthy_opt v = (case v of None \<Rightarrow> False | Some j \<Rightarrow> truthy j)"

text \<open>
  \<open>v.k\<close> for a property \<open>k\<close> that is not a built-in of strings or arrays: reading a
  property of \<open>null\<close> throws a TypeError, of an object looks the key up, of any other
  value gives \<open>undefined\<close>.
\<close>

definition null_deref :: js_error where
  "null_deref = TypeError ''Cannot read property of null''"

fun js_get :: "json \<Rightarrow> string \<Rightarrow> js_error + json option" where
  "js_get JNull k = Inl null_deref"
| "js_get (JObj fs) k = Inr (map_of fs k)"
| "js_get _ k = Inr None"

subsection \<open>Decimal numerals\<close>

definition digit_char :: "nat \<Rightarrow> char" where
  "digit_char d = char_of (48 + d)"

fun decimal_nat :: "nat \<Rightarrow> string" where
  "decimal_nat n = (if n < 10 then [digit_char n] else decimal_nat (n div 10) @ [digit_char (n mod 10)])"

declare decimal_nat.simps [simp del]


subsection \<open>Whitespace and \<open>String.prototype.trim\<close>\<close>

text \<open>The white space and line terminator code points below 256: TAB, LF, VT, FF, CR, SP
  and NBSP.\<close>

definition is_ws :: "char \<Rightarrow> bool" where
  "is_ws c = (c \<in> {CHR 0x09, CHR 0x0A, CHR 0x0B, CHR 0x0C, CHR 0x0D, CHR 0x20, CHR 0xA0})"

definition js_trim :: "string \<Rightarrow> string" where
  "js_trim s = rev (dropWhile is_ws (rev (dropWhile is_ws s)))"

subsection \<open>\<open>parseInt\<close> with no radix argument\<close>

text \<open>
  Leading white space is skipped, one sign is read, a \<open>0x\<close> or \<open>0X\<close> prefix selects
  radix 16, and the longest prefix of digits of the radix is the value.  No digit at all
  gives \<open>NaN\<close>, here \<open>None\<close>.  The sign of zero is not kept (\<open>-0\<close> is as falsy as
  \<open>0\<close>), and the value is exact where JavaScript rounds above \<open>2\<^sup>5\<^sup>3\<close>.
\<close>

definition digit_value :: "char \<Rightarrow> nat option" where
  "digit_value c =
     (let n = (of_char c :: nat) in
      if 48 \<le> n \<and> n \<le> 57 then Some (n - 48)
      else if 97 \<le> n \<and> n \<le> 102 then Some (n - 87)
      else if 65 \<le> n \<and> n \<le> 70 then Some (n - 55)
      else None)"

definition is_digit :: "nat \<Rightarrow> char \<Rightarrow> bool" where
  "is_digit radix c = (case digit_value c of None \<Rightarrow> False | Some d \<Rightarrow> d < radix)"

definition digits_value :: "nat \<Rightarrow> string \<Rightarrow> nat" where
  "digits_value radix z = foldl (\<lambda>acc c. acc * radix + (case digit_value c of None \<Rightarrow> 0 | Some d \<Rightarrow> d)) 0 z"

definition strip_sign :: "string \<Rightarrow> bool \<times> string" where
  "strip_sign s =
     (case s of
        c # rest \<Rightarrow> if c = CHR ''-'' then (True, rest)
                    else if c = CHR ''+'' then (False, rest)
                    else (False, s)
      | [] \<Rightarrow> (False, s))"

definition strip_radix :: "string \<Rightarrow> nat \<times> string" where
  "strip_radix s =
     (case s of
        a # b # rest \<Rightarrow> if a = CHR ''0'' \<and> (b = CHR ''x'' \<or> b = CHR ''X'') then (16, rest) else (10, s)
      | _ \<Rightarrow> (10, s))"

definition js_parseInt :: "string \<Rightarrow> int option" where
  "js_parseInt text =
     (let (neg, s) = strip_sign (dropWhile is_ws text);
          (radix, s') = strip_radix s;
          z = takeWhile (is_digit radix) s'
      in if z = [] then None
         else Some (if neg then - int (digits_value radix z) else int (digits_value radix z)))"

subsection \<open>\<open>Math.round\<close>\<close>


section \<open>Log viewer: records and pure helpers\<close>

record SMSLog =
  log_id :: string
  sender :: string
  content :: string
  timestamp :: string
  forwarded :: bool
  forwarded_at :: "string option"
  email_status :: string
  error_message :: "string option"


record icon =
  icon_name :: string
  icon_color :: string

definition getStatusIcon :: "SMSLog \<Rightarrow> icon" where
  "getStatusIcon entry =
     (if forwarded entry then \<lparr>icon_name = ''checkmark-circle'', icon_color = ''#4CAF50''\<rparr>
      else if email_status entry = ''failed'' then \<lparr>icon_name = ''close-circle'', icon_color = ''#F44336''\<rparr>
      else if email_status entry = ''filtered'' then \<lparr>icon_name = ''filter-circle'', icon_color = ''#FF9800''\<rparr>
      else if email_status entry = ''no_config'' then \<lparr>icon_name = ''settings'', icon_color = ''#FF5722''\<rparr>
      else \<lparr>icon_name = ''time'', icon_color = ''#999''\<rparr>)"

definition getStatusLabel :: "SMSLog \<Rightarrow> string" where
  "getStatusLabel entry =
     (if forwarded entry then ''Forwarded''
      else if email_status entry = ''failed'' then ''Failed''
      else if email_status entry = ''filtered'' then ''Filtered''
      else if email_status entry = ''no_config'' then ''No Config''
      else ''Pending'')"


definition getFilteredLogs :: "string \<Rightarrow> SMSLog list \<Rightarrow> SMSLog list" where
  "getFilteredLogs filterStatus logs =
     (if filterStatus = ''forwarded'' then filter forwarded logs
      else if filterStatus = ''failed'' then filter (\<lambda>entry. email_status entry = ''failed'') logs
      else logs)"

section \<open>Effects and environment\<close>

text \<open>
  A handler is a function from the outcomes of the calls it awaits and the screen's state
  to the new state and the list of effects it performs, in order.  A request records its
  method, URL and JSON body (the Content-Type header is the same everywhere and is left
  out); an alert records its title and message.  Pressing a button of a confirmation dialog is
  part of the event (a Boolean); navigation between screens has no effect on the traces
  and is left out.
\<close>

datatype http_method = GET | POST | PUT | DELETE

datatype effect =
    Fetch http_method string "json option"
  | StorageGet string
  | StorageSet string string
  | StorageMultiRemove "string list"
  | Alert string string
  | ConsoleError string
  | OpenSettings

text \<open>
  What the handlers take from the JavaScript runtime and the build configuration:
  the backend URL, \<open>String(v)\<close>, \<open>JSON.parse\<close>, \<open>JSON.stringify\<close>,
  \<open>new Date(v).toDateString()\<close>, \<open>new Date().toDateString()\<close>,
  \<open>new Date().toISOString()\<close> and \<open>Platform.OS\<close>.
\<close>

record js_env =
  backendUrl :: string
  String_of :: "json option \<Rightarrow> string"
  JSON_parse :: "string \<Rightarrow> js_error + json"
  JSON_stringify :: "json \<Rightarrow> string"
  toDateString :: "json option \<Rightarrow> string"
  today :: string
  now_iso :: string
  platform_os :: string

text \<open>A response: its \<open>ok\<close> flag and what \<open>response.json()\<close> settles to.\<close>

record response =
  ok :: bool
  json_result :: "json outcome"

text \<open>\<open>a || b\<close> on a possibly undefined value, converted to a string where it is used as
  a message.\<close>

definition or_else :: "js_env \<Rightarrow> json option \<Rightarrow> string \<Rightarrow> string" where
  "or_else env v dflt = (if truthy_opt v then String_of env v else dflt)"

text \<open>The own enumerable properties copied by an object spread \<open>{...v}\<close>.\<close>

definition indexed :: "json list \<Rightarrow> (string \<times> json) list" where
  "indexed xs = zip (map decimal_nat [0..<length xs]) xs"

fun own_props :: "json \<Rightarrow> (string \<times> json) list" where
  "own_props (JObj fs) = fs"
| "own_props (JArr xs) = indexed xs"
| "own_props (JStr s) = indexed (map (\<lambda>c. JStr [c]) s)"
| "own_props _ = []"

text \<open>\<open>{...a, ...b}\<close>: the properties of \<open>b\<close> written over those of \<open>a\<close>.\<close>

definition spread_over :: "(string \<times> json) list \<Rightarrow> (string \<times> json) list \<Rightarrow> (string \<times> json) list" where
  "spread_over a b = foldl (\<lambda>acc kv. AList.update (fst kv) (snd kv) acc) a b"

section \<open>Log viewer screen\<close>

record logs_screen =
  logs :: json
  logs_stats :: "json option"
  logs_loading :: bool
  refreshing :: bool
  filterStatus :: string

definition logs_initial :: logs_screen where
  "logs_initial = \<lparr>logs = JArr [], logs_stats = None, logs_loading = True, refreshing = False,
     filterStatus = ''all''\<rparr>"

definition loadData_requests :: "js_env \<Rightarrow> effect list" where
  "loadData_requests env =
     [Fetch GET (backendUrl env @ ''/api/sms/messages'') None,
      Fetch GET (backendUrl env @ ''/api/sms/stats'') None]"

definition loadData_catch :: "effect list" where
  "loadData_catch = [ConsoleError ''Failed to load data:'', Alert ''Error'' ''Failed to load SMS logs'']"

definition loadData_finally :: "logs_screen \<Rightarrow> logs_screen" where
  "loadData_finally st = st\<lparr>logs_loading := False, refreshing := False\<rparr>"

definition loadData :: "js_env \<Rightarrow> response outcome \<Rightarrow> response outcome \<Rightarrow> logs_screen
    \<Rightarrow> logs_screen \<times> effect list" where
  "loadData env logsResponse statsResponse st =
     (case logsResponse of
        Rejected e \<Rightarrow> (loadData_finally st, loadData_requests env @ loadData_catch)
      | Fulfilled lr \<Rightarrow>
          (case statsResponse of
             Rejected e \<Rightarrow> (loadData_finally st, loadData_requests env @ loadData_catch)
           | Fulfilled sr \<Rightarrow>
               (case json_result lr of
                  Rejected e \<Rightarrow> (loadData_finally st, loadData_requests env @ loadData_catch)
                | Fulfilled logsData \<Rightarrow>
                    (case json_result sr of
                       Rejected e \<Rightarrow> (loadData_finally st, loadData_requests env @ loadData_catch)
                     | Fulfilled statsData \<Rightarrow>
                         (loadData_finally (st\<lparr>logs := logsData, logs_stats := Some statsData\<rparr>),
                          loadData_requests env)))))"

definition onRefresh :: "js_env \<Rightarrow> response outcome \<Rightarrow> response outcome \<Rightarrow> logs_screen
    \<Rightarrow> logs_screen \<times> effect list" where
  "onRefresh env logsResponse statsResponse st =
     loadData env logsResponse statsResponse (st\<lparr>refreshing := True\<rparr>)"

text \<open>The argument says whether the user pressed Clear in the confirmation dialog.\<close>

definition clearLogs :: "bool \<Rightarrow> effect list" where
  "clearLogs confirmed =
     Alert ''Clear Logs'' ''Are you sure you want to clear all SMS logs? This action cannot be undone.''
     # (if confirmed
        then [Alert ''Info'' ''Clear logs functionality will be implemented in the backend'']
        else [])"

section \<open>Filters screen\<close>

record SMSFilter =
  filter_id :: string
  name :: string
  filter_type :: string
  filter_value :: "string option"
  enabled :: bool
  created_at :: string

record form_data =
  form_name :: string
  form_filter_type :: string
  form_filter_value :: string

record filters_screen =
  filters :: json
  filters_loading :: bool
  modalVisible :: bool
  editingFilter :: "SMSFilter option"
  formData :: form_data

definition empty_form :: form_data where
  "empty_form = \<lparr>form_name = [], form_filter_type = ''all'', form_filter_value = []\<rparr>"

definition filters_initial :: filters_screen where
  "filters_initial = \<lparr>filters = JArr [], filters_loading = True, modalVisible = False,
     editingFilter = None, formData = empty_form\<rparr>"

text \<open>
  \<open>loadFilters\<close> issues its request when it is called and does the rest when the
  response arrives.  The handlers that call it without awaiting it go on between the two.
\<close>

definition loadFilters_request :: "js_env \<Rightarrow> effect" where
  "loadFilters_request env = Fetch GET (backendUrl env @ ''/api/filters'') None"

definition loadFilters_catch :: "effect list" where
  "loadFilters_catch = [ConsoleError ''Failed to load filters:'', Alert ''Error'' ''Failed to load filters'']"

definition loadFilters_settle :: "response outcome \<Rightarrow> filters_screen \<Rightarrow> filters_screen \<times> effect list" where
  "loadFilters_settle resp st =
     (case resp of
        Rejected e \<Rightarrow> (st\<lparr>filters_loading := False\<rparr>, loadFilters_catch)
      | Fulfilled r \<Rightarrow>
          (case json_result r of
             Rejected e \<Rightarrow> (st\<lparr>filters_loading := False\<rparr>, loadFilters_catch)
           | Fulfilled data \<Rightarrow> (st\<lparr>filters := data, filters_loading := False\<rparr>, [])))"

definition loadFilters :: "js_env \<Rightarrow> response outcome \<Rightarrow> filters_screen \<Rightarrow> filters_screen \<times> effect list" where
  "loadFilters env resp st =
     (let (st', rest) = loadFilters_settle resp st in (st', loadFilters_request env # rest))"

definition openAddModal :: "filters_screen \<Rightarrow> filters_screen" where
  "openAddModal st = st\<lparr>editingFilter := None, formData := empty_form, modalVisible := True\<rparr>"

definition openEditModal :: "SMSFilter \<Rightarrow> filters_screen \<Rightarrow> filters_screen" where
  "openEditModal f st =
     st\<lparr>editingFilter := Some f,
        formData := \<lparr>form_name = name f, form_filter_type = filter_type f,
                      form_filter_value = (case filter_value f of None \<Rightarrow> [] | Some v \<Rightarrow> v)\<rparr>,
        modalVisible := True\<rparr>"

definition filterData :: "form_data \<Rightarrow> (string \<times> json) list" where
  "filterData fd =
     [(''name'', JStr (form_name fd)),
      (''filter_type'', JStr (form_filter_type fd)),
      (''filter_value'', if form_filter_type fd = ''all'' then JNull else JStr (form_filter_value fd)),
      (''enabled'', JBool True)]"

definition saveFilter_request :: "js_env \<Rightarrow> filters_screen \<Rightarrow> effect" where
  "saveFilter_request env st =
     (case editingFilter st of
        Some f \<Rightarrow> Fetch PUT (backendUrl env @ ''/api/filters/'' @ filter_id f) (Some (JObj (filterData (formData st))))
      | None \<Rightarrow> Fetch POST (backendUrl env @ ''/api/filters'') (Some (JObj (filterData (formData st)))))"

definition saveFilter_catch :: "js_error \<Rightarrow> effect list" where
  "saveFilter_catch e = [Alert ''Error'' (message e)]"

definition saveFilter :: "js_env \<Rightarrow> response outcome \<Rightarrow> response outcome \<Rightarrow> filters_screen
    \<Rightarrow> filters_screen \<times> effect list" where
  "saveFilter env resp reload st =
     (if js_trim (form_name (formData st)) = [] then
        (st, [Alert ''Validation Error'' ''Please enter a filter name''])
      else if form_filter_type (formData st) \<noteq> ''all'' \<and> js_trim (form_filter_value (formData st)) = [] then
        (st, [Alert ''Validation Error'' ''Please enter a filter value''])
      else
        (case resp of
           Rejected e \<Rightarrow> (st, saveFilter_request env st # saveFilter_catch e)
         | Fulfilled r \<Rightarrow>
             if ok r then
               (let (st', rest) = loadFilters_settle reload (st\<lparr>modalVisible := False\<rparr>)
                in (st', [saveFilter_request env st, loadFilters_request env,
                          Alert ''Success'' (''Filter '' @ (if editingFilter st \<noteq> None then ''updated'' else ''created'')
                                             @ '' successfully'')] @ rest))
             else
               (case json_result r of
                  Rejected e \<Rightarrow> (st, saveFilter_request env st # saveFilter_catch e)
                | Fulfilled error \<Rightarrow>
                    (case js_get error ''detail'' of
                       Inl e \<Rightarrow> (st, saveFilter_request env st # saveFilter_catch e)
                     | Inr detail \<Rightarrow>
                         (st, saveFilter_request env st
                              # saveFilter_catch (Error (or_else env detail ''Failed to save filter'')))))))"

definition toggleFilter_request :: "js_env \<Rightarrow> SMSFilter \<Rightarrow> effect" where
  "toggleFilter_request env f =
     Fetch PUT (backendUrl env @ ''/api/filters/'' @ filter_id f) (Some (JObj [(''enabled'', JBool (\<not> enabled f))]))"

definition toggleFilter_catch :: "effect list" where
  "toggleFilter_catch = [Alert ''Error'' ''Failed to toggle filter'']"

definition toggleFilter :: "js_env \<Rightarrow> SMSFilter \<Rightarrow> response outcome \<Rightarrow> response outcome \<Rightarrow> filters_screen
    \<Rightarrow> filters_screen \<times> effect list" where
  "toggleFilter env f resp reload st =
     (case resp of
        Rejected e \<Rightarrow> (st, toggleFilter_request env f # toggleFilter_catch)
      | Fulfilled r \<Rightarrow>
          if ok r then
            (let (st', rest) = loadFilters_settle reload st
             in (st', [toggleFilter_request env f, loadFilters_request env] @ rest))
          else (st, toggleFilter_request env f # toggleFilter_catch))"

definition deleteFilter_request :: "js_env \<Rightarrow> SMSFilter \<Rightarrow> effect" where
  "deleteFilter_request env f = Fetch DELETE (backendUrl env @ ''/api/filters/'' @ filter_id f) None"

definition deleteFilter_catch :: "effect list" where
  "deleteFilter_catch = [Alert ''Error'' ''Failed to delete filter'']"

definition deleteFilter_confirm :: "SMSFilter \<Rightarrow> effect" where
  "deleteFilter_confirm f =
     Alert ''Delete Filter'' (''Are you sure you want to delete '' @ [CHR 0x22] @ name f @ [CHR 0x22] @ ''?'')"

text \<open>The Boolean says whether the user pressed Delete in the confirmation dialog.\<close>

definition deleteFilter :: "js_env \<Rightarrow> SMSFilter \<Rightarrow> bool \<Rightarrow> response outcome \<Rightarrow> response outcome
    \<Rightarrow> filters_screen \<Rightarrow> filters_screen \<times> effect list" where
  "deleteFilter env f confirmed resp reload st =
     (if \<not> confirmed then (st, [deleteFilter_confirm f])
      else
        (case resp of
           Rejected e \<Rightarrow> (st, [deleteFilter_confirm f, deleteFilter_request env f] @ deleteFilter_catch)
         | Fulfilled r \<Rightarrow>
             if ok r then
               (let (st', rest) = loadFilters_settle reload st
                in (st', [deleteFilter_confirm f, deleteFilter_request env f, loadFilters_request env,
                          Alert ''Success'' ''Filter deleted successfully''] @ rest))
             else (st, [deleteFilter_confirm f, deleteFilter_request env f] @ deleteFilter_catch)))"

section \<open>Email configuration screen\<close>

text \<open>
  The configuration held by the screen is the object built by the spreads of the source
  (\<^verbatim>\<open>{...data.config, smtp_password: ''}\<close>, \<^verbatim>\<open>{...config, smtp_server: text}\<close>),
  so it is kept as an object.  The active tab is whatever \<^verbatim>\<open>data.config.email_type || 'smtp'\<close>
  or a tab button last stored.
\<close>

record email_screen =
  activeTab :: json
  config :: "(string \<times> json) list"
  config_loading :: bool
  testLoading :: bool

definition config_initial :: "(string \<times> json) list" where
  "config_initial =
     [(''email_type'', JStr ''smtp''),
      (''smtp_server'', JStr []),
      (''smtp_port'', JNum 587),
      (''smtp_username'', JStr []),
      (''smtp_password'', JStr []),
      (''use_tls'', JBool True),
      (''recipient_email'', JStr []),
      (''sender_name'', JStr ''SMS Forwarder'')]"

definition email_initial :: email_screen where
  "email_initial = \<lparr>activeTab = JStr ''smtp'', config = config_initial, config_loading = False,
     testLoading = False\<rparr>"

definition loadEmailConfig_request :: "js_env \<Rightarrow> effect" where
  "loadEmailConfig_request env = Fetch GET (backendUrl env @ ''/api/email/config'') None"

definition loadEmailConfig_catch :: "effect list" where
  "loadEmailConfig_catch = [ConsoleError ''Failed to load email config:'']"

text \<open>The branch taken when \<^verbatim>\<open>data.status === 'configured' && data.config\<close> holds;
  \<open>cfg\<close> is \<^verbatim>\<open>data.config\<close>, which is truthy there.\<close>

definition apply_loaded_config :: "json \<Rightarrow> email_screen \<Rightarrow> email_screen" where
  "apply_loaded_config cfg st =
     st\<lparr>config := AList.update ''smtp_password'' (JStr []) (own_props cfg),
        activeTab := (case js_get cfg ''email_type'' of
                        Inr (Some t) \<Rightarrow> if truthy t then t else JStr ''smtp''
                      | _ \<Rightarrow> JStr ''smtp'')\<rparr>"

definition loadEmailConfig :: "js_env \<Rightarrow> response outcome \<Rightarrow> email_screen \<Rightarrow> email_screen \<times> effect list" where
  "loadEmailConfig env resp st =
     (case resp of
        Rejected e \<Rightarrow> (st, loadEmailConfig_request env # loadEmailConfig_catch)
      | Fulfilled r \<Rightarrow>
          (case json_result r of
             Rejected e \<Rightarrow> (st, loadEmailConfig_request env # loadEmailConfig_catch)
           | Fulfilled data \<Rightarrow>
               (case js_get data ''status'' of
                  Inl e \<Rightarrow> (st, loadEmailConfig_request env # loadEmailConfig_catch)
                | Inr status \<Rightarrow>
                    if status = Some (JStr ''configured'') then
                      (case js_get data ''config'' of
                         Inl e \<Rightarrow> (st, loadEmailConfig_request env # loadEmailConfig_catch)
                       | Inr None \<Rightarrow> (st, [loadEmailConfig_request env])
                       | Inr (Some cfg) \<Rightarrow>
                           if truthy cfg then (apply_loaded_config cfg st, [loadEmailConfig_request env])
                           else (st, [loadEmailConfig_request env]))
                    else (st, [loadEmailConfig_request env]))))"

definition configToSave :: "email_screen \<Rightarrow> (string \<times> json) list" where
  "configToSave st = AList.update ''email_type'' (activeTab st) (config st)"

definition saveEmailConfig_request :: "js_env \<Rightarrow> email_screen \<Rightarrow> effect" where
  "saveEmailConfig_request env st =
     Fetch POST (backendUrl env @ ''/api/email/config'') (Some (JObj (configToSave st)))"

definition saveEmailConfig_catch :: "js_error \<Rightarrow> effect list" where
  "saveEmailConfig_catch e = [Alert ''Error'' (message e)]"

definition falsy_field :: "email_screen \<Rightarrow> string \<Rightarrow> bool" where
  "falsy_field st k = (\<not> truthy_opt (map_of (config st) k))"

definition saveEmailConfig :: "js_env \<Rightarrow> response outcome \<Rightarrow> email_screen \<Rightarrow> email_screen \<times> effect list" where
  "saveEmailConfig env resp st =
     (if falsy_field st ''recipient_email'' then
        (st, [Alert ''Validation Error'' ''Please enter a recipient email address''])
      else if activeTab st = JStr ''smtp''
              \<and> (falsy_field st ''smtp_server'' \<or> falsy_field st ''smtp_username''
                   \<or> falsy_field st ''smtp_password'') then
        (st, [Alert ''Validation Error'' ''Please fill in all SMTP fields''])
      else
        (case resp of
           Rejected e \<Rightarrow>
             (st\<lparr>config_loading := False\<rparr>, saveEmailConfig_request env st # saveEmailConfig_catch e)
         | Fulfilled r \<Rightarrow>
             (case json_result r of
                Rejected e \<Rightarrow>
                  (st\<lparr>config_loading := False\<rparr>, saveEmailConfig_request env st # saveEmailConfig_catch e)
              | Fulfilled result \<Rightarrow>
                  if ok r then
                    (st\<lparr>config_loading := False\<rparr>,
                     [saveEmailConfig_request env st,
                      Alert ''Success'' ''Email configuration saved successfully''])
                  else
                    (case js_get result ''detail'' of
                       Inl e \<Rightarrow>
                         (st\<lparr>config_loading := False\<rparr>,
                          saveEmailConfig_request env st # saveEmailConfig_catch e)
                     | Inr detail \<Rightarrow>
                         (st\<lparr>config_loading := False\<rparr>,
                          saveEmailConfig_request env st
                          # saveEmailConfig_catch (Error (or_else env detail ''Failed to save configuration'')))))))"

definition testEmailConfig_request :: "js_env \<Rightarrow> email_screen \<Rightarrow> effect" where
  "testEmailConfig_request env st =
     Fetch POST (backendUrl env @ ''/api/email/test'')
       (Some (JObj
          ((case map_of (config st) ''recipient_email'' of
              None \<Rightarrow> [] | Some v \<Rightarrow> [(''recipient_email'', v)])
           @ [(''test_message'', JStr ''This is a test message from SMS Mail Forwarder to verify your email configuration is working correctly.'')])))"

definition testEmailConfig_catch :: "js_error \<Rightarrow> effect list" where
  "testEmailConfig_catch e = [Alert ''Test Error'' (message e)]"

definition testEmailConfig :: "js_env \<Rightarrow> response outcome \<Rightarrow> email_screen \<Rightarrow> email_screen \<times> effect list" where
  "testEmailConfig env resp st =
     (if falsy_field st ''recipient_email'' then
        (st, [Alert ''Validation Error'' ''Please enter a recipient email address first''])
      else
        (case resp of
           Rejected e \<Rightarrow>
             (st\<lparr>testLoading := False\<rparr>, testEmailConfig_request env st # testEmailConfig_catch e)
         | Fulfilled r \<Rightarrow>
             (case json_result r of
                Rejected e \<Rightarrow>
                  (st\<lparr>testLoading := False\<rparr>, testEmailConfig_request env st # testEmailConfig_catch e)
              | Fulfilled result \<Rightarrow>
                  (case js_get result ''status'' of
                     Inl e \<Rightarrow>
                       (st\<lparr>testLoading := False\<rparr>, testEmailConfig_request env st # testEmailConfig_catch e)
                   | Inr status \<Rightarrow>
                       if status = Some (JStr ''sent'') then
                         (st\<lparr>testLoading := False\<rparr>,
                          [testEmailConfig_request env st,
                           Alert ''Test Successful'' ''Test email sent successfully! Check your inbox.''])
                       else
                         (case js_get result ''message'' of
                            Inl e \<Rightarrow>
                              (st\<lparr>testLoading := False\<rparr>,
                               testEmailConfig_request env st # testEmailConfig_catch e)
                          | Inr msg \<Rightarrow>
                              (st\<lparr>testLoading := False\<rparr>,
                               [testEmailConfig_request env st,
                                Alert ''Test Failed'' (or_else env msg ''Failed to send test email'')]))))))"

text \<open>The preset buttons pass \<open>gmail\<close>, \<open>outlook\<close> or \<open>yahoo\<close>.\<close>

definition presets :: "string \<Rightarrow> (string \<times> json) list option" where
  "presets provider =
     (if provider = ''gmail'' then
        Some [(''smtp_server'', JStr ''smtp.gmail.com''), (''smtp_port'', JNum 587), (''use_tls'', JBool True)]
      else if provider = ''outlook'' then
        Some [(''smtp_server'', JStr ''smtp-mail.outlook.com''), (''smtp_port'', JNum 587), (''use_tls'', JBool True)]
      else if provider = ''yahoo'' then
        Some [(''smtp_server'', JStr ''smtp.mail.yahoo.com''), (''smtp_port'', JNum 587), (''use_tls'', JBool True)]
      else None)"

definition toUpperCase_char :: "char \<Rightarrow> char" where
  "toUpperCase_char c =
     (let n = (of_char c :: nat) in if 97 \<le> n \<and> n \<le> 122 then char_of (n - 32) else c)"

definition capitalized :: "string \<Rightarrow> string" where
  "capitalized s = (case s of [] \<Rightarrow> [] | c # rest \<Rightarrow> toUpperCase_char c # rest)"

definition getProviderPresets :: "string \<Rightarrow> email_screen \<Rightarrow> email_screen \<times> effect list" where
  "getProviderPresets provider st =
     (case presets provider of
        Some p \<Rightarrow> (st\<lparr>config := spread_over (config st) p\<rparr>,
                   [Alert ''Preset Applied'' (capitalized provider @ '' settings have been applied'')])
      | None \<Rightarrow> (st, []))"

text \<open>The tab buttons, the text inputs and the TLS checkbox.\<close>

definition setActiveTab :: "string \<Rightarrow> email_screen \<Rightarrow> email_screen" where
  "setActiveTab tab st = st\<lparr>activeTab := JStr tab\<rparr>"

definition setConfigText :: "string \<Rightarrow> string \<Rightarrow> email_screen \<Rightarrow> email_screen" where
  "setConfigText field text st = st\<lparr>config := AList.update field (JStr text) (config st)\<rparr>"

definition parsed_port :: "string \<Rightarrow> int" where
  "parsed_port text = (case js_parseInt text of None \<Rightarrow> 587 | Some n \<Rightarrow> if n = 0 then 587 else n)"

definition setSmtpPort :: "string \<Rightarrow> email_screen \<Rightarrow> email_screen" where
  "setSmtpPort text st = st\<lparr>config := AList.update ''smtp_port'' (JNum (of_int (parsed_port text))) (config st)\<rparr>"

definition toggleUseTls :: "email_screen \<Rightarrow> email_screen" where
  "toggleUseTls st =
     st\<lparr>config := AList.update ''use_tls'' (JBool (\<not> truthy_opt (map_of (config st) ''use_tls''))) (config st)\<rparr>"

section \<open>Test SMS screen\<close>

record sms_screen =
  testData_sender :: string
  testData_content :: string
  sms_loading :: bool

definition sms_initial :: sms_screen where
  "sms_initial = \<lparr>testData_sender = ''+1234567890'',
     testData_content = ''This is a test SMS message to verify that your email forwarding is working correctly.'',
     sms_loading = False\<rparr>"

definition sendTestSMS_request :: "js_env \<Rightarrow> sms_screen \<Rightarrow> effect" where
  "sendTestSMS_request env st =
     Fetch POST (backendUrl env @ ''/api/sms/forward'')
       (Some (JObj [(''sender'', JStr (testData_sender st)),
                    (''content'', JStr (testData_content st)),
                    (''timestamp'', JStr (now_iso env))]))"

definition sendTestSMS_catch :: "js_error \<Rightarrow> effect list" where
  "sendTestSMS_catch e = [Alert ''Error'' (message e)]"

definition test_result_message :: "js_env \<Rightarrow> json option \<Rightarrow> json option \<Rightarrow> string" where
  "test_result_message env status msg =
     ''SMS processing '' @ (if status = Some (JStr ''sent'') then ''successful'' else ''completed'')
     @ ''!'' @ [CHR 0x0A, CHR 0x0A] @ ''Status: '' @ String_of env status
     @ [CHR 0x0A] @ ''Message: '' @ String_of env msg"

definition sendTestSMS :: "js_env \<Rightarrow> response outcome \<Rightarrow> sms_screen \<Rightarrow> sms_screen \<times> effect list" where
  "sendTestSMS env resp st =
     (if js_trim (testData_sender st) = [] \<or> js_trim (testData_content st) = [] then
        (st, [Alert ''Validation Error'' ''Please fill in both sender and content fields''])
      else
        (case resp of
           Rejected e \<Rightarrow> (st\<lparr>sms_loading := False\<rparr>, sendTestSMS_request env st # sendTestSMS_catch e)
         | Fulfilled r \<Rightarrow>
             (case json_result r of
                Rejected e \<Rightarrow> (st\<lparr>sms_loading := False\<rparr>, sendTestSMS_request env st # sendTestSMS_catch e)
              | Fulfilled result \<Rightarrow>
                  if ok r then
                    (case js_get result ''status'' of
                       Inl e \<Rightarrow> (st\<lparr>sms_loading := False\<rparr>, sendTestSMS_request env st # sendTestSMS_catch e)
                     | Inr status \<Rightarrow>
                         (case js_get result ''message'' of
                            Inl e \<Rightarrow>
                              (st\<lparr>sms_loading := False\<rparr>, sendTestSMS_request env st # sendTestSMS_catch e)
                          | Inr msg \<Rightarrow>
                              (st\<lparr>sms_loading := False\<rparr>,
                               [sendTestSMS_request env st,
                                Alert ''Test Result'' (test_result_message env status msg)])))
                  else
                    (case js_get result ''detail'' of
                       Inl e \<Rightarrow> (st\<lparr>sms_loading := False\<rparr>, sendTestSMS_request env st # sendTestSMS_catch e)
                     | Inr detail \<Rightarrow>
                         (st\<lparr>sms_loading := False\<rparr>,
                          sendTestSMS_request env st
                          # sendTestSMS_catch (Error (or_else env detail ''Failed to process test SMS'')))))))"

definition usePreset :: "string \<Rightarrow> string \<Rightarrow> sms_screen \<Rightarrow> sms_screen" where
  "usePreset s c st = st\<lparr>testData_sender := s, testData_content := c\<rparr>"

section \<open>Settings screen\<close>

record settings_screen =
  settings :: "(string \<times> json) list"

definition settings_initial :: settings_screen where
  "settings_initial = \<lparr>settings =
     [(''notificationsEnabled'', JBool True),
      (''runInBackground'', JBool True),
      (''autoStart'', JBool False),
      (''encryptMessages'', JBool False),
      (''soundEnabled'', JBool True),
      (''vibrationEnabled'', JBool True)]\<rparr>"

definition loadSettings_catch :: "effect list" where
  "loadSettings_catch = [ConsoleError ''Failed to load settings:'']"

definition loadSettings :: "js_env \<Rightarrow> string option outcome \<Rightarrow> settings_screen \<Rightarrow> settings_screen \<times> effect list" where
  "loadSettings env item st =
     (case item of
        Rejected e \<Rightarrow> (st, StorageGet ''app_settings'' # loadSettings_catch)
      | Fulfilled None \<Rightarrow> (st, [StorageGet ''app_settings''])
      | Fulfilled (Some savedSettings) \<Rightarrow>
          if savedSettings = [] then (st, [StorageGet ''app_settings''])
          else
            (case JSON_parse env savedSettings of
               Inl e \<Rightarrow> (st, StorageGet ''app_settings'' # loadSettings_catch)
             | Inr parsed \<Rightarrow>
                 (st\<lparr>settings := spread_over (settings st) (own_props parsed)\<rparr>,
                  [StorageGet ''app_settings''])))"

definition updateSetting_catch :: "effect list" where
  "updateSetting_catch = [ConsoleError ''Failed to save setting:'', Alert ''Error'' ''Failed to save setting'']"

definition updateSetting :: "js_env \<Rightarrow> string \<Rightarrow> bool \<Rightarrow> unit outcome \<Rightarrow> settings_screen
    \<Rightarrow> settings_screen \<times> effect list" where
  "updateSetting env key val written st =
     (let newSettings = AList.update key (JBool val) (settings st);
          write = StorageSet ''app_settings'' (JSON_stringify env (JObj newSettings))
      in case written of
           Rejected e \<Rightarrow> (st\<lparr>settings := newSettings\<rparr>, write # updateSetting_catch)
         | Fulfilled u \<Rightarrow> (st\<lparr>settings := newSettings\<rparr>, [write]))"

definition clearAllData_confirm :: effect where
  "clearAllData_confirm = Alert ''Clear All Data''
     ''This will remove all SMS logs, filters, and email configuration. This action cannot be undone.''"

definition clearAllData_remove :: effect where
  "clearAllData_remove = StorageMultiRemove
     [''email_config'', ''sms_filters'', ''sms_logs'', ''app_settings'', ''service_status'']"

definition clearAllData_catch :: "effect list" where
  "clearAllData_catch = [Alert ''Error'' ''Failed to clear data'']"

text \<open>The Boolean says whether the user pressed Clear All in the confirmation dialog.\<close>

definition clearAllData :: "bool \<Rightarrow> unit outcome \<Rightarrow> effect list" where
  "clearAllData confirmed removed =
     (if \<not> confirmed then [clearAllData_confirm]
      else
        (case removed of
           Rejected e \<Rightarrow> [clearAllData_confirm, clearAllData_remove] @ clearAllData_catch
         | Fulfilled u \<Rightarrow>
             [clearAllData_confirm, clearAllData_remove, Alert ''Success'' ''All data has been cleared'']))"

definition exportData :: "effect list" where
  "exportData = [Alert ''Export Data''
     ''Data export functionality will be available in a future update. This will allow you to backup your SMS logs and settings.'']"

definition openAppPermissions :: "bool \<Rightarrow> effect list" where
  "openAppPermissions confirmed =
     Alert ''App Permissions''
       ''Open device settings to manage app permissions including SMS access, notifications, and background processing.''
     # (if confirmed then [OpenSettings] else [])"

section \<open>Dashboard\<close>

text \<open>
  \<open>activeFilters\<close> is \<^verbatim>\<open>parsedFilters.length\<close> of whatever was stored: a number for an
  array or a string, the \<open>length\<close> property of an object, \<open>undefined\<close> otherwise.
\<close>

record DashboardStats =
  totalSMS :: nat
  forwardedToday :: nat
  activeFilters :: "json option"
  emailConfigured :: bool

record home_screen =
  home_stats :: DashboardStats
  isServiceRunning :: bool

definition home_initial :: home_screen where
  "home_initial = \<lparr>home_stats = \<lparr>totalSMS = 0, forwardedToday = 0, activeFilters = Some (JNum 0),
     emailConfigured = False\<rparr>, isServiceRunning = False\<rparr>"

definition not_a_function :: js_error where
  "not_a_function = TypeError ''filter is not a function''"

fun js_length :: "json \<Rightarrow> js_error + json option" where
  "js_length JNull = Inl null_deref"
| "js_length (JArr xs) = Inr (Some (JNum (of_nat (length xs))))"
| "js_length (JStr s) = Inr (Some (JNum (of_nat (length s))))"
| "js_length (JObj fs) = Inr (map_of fs ''length'')"
| "js_length _ = Inr None"

text \<open>\<^verbatim>\<open>item ? JSON.parse(item) : []\<close> for a stored item.\<close>

definition parse_or_empty :: "js_env \<Rightarrow> string option \<Rightarrow> js_error + json" where
  "parse_or_empty env item =
     (case item of
        None \<Rightarrow> Inr (JArr [])
      | Some s \<Rightarrow> if s = [] then Inr (JArr []) else JSON_parse env s)"

text \<open>The callback of the filter: \<^verbatim>\<open>new Date(log.timestamp).toDateString() === today\<close>.\<close>

definition is_today :: "js_env \<Rightarrow> json \<Rightarrow> js_error + bool" where
  "is_today env entry =
     (case js_get entry ''timestamp'' of
        Inl e \<Rightarrow> Inl e
      | Inr ts \<Rightarrow> Inr (toDateString env ts = today env))"

fun filter_today :: "js_env \<Rightarrow> json list \<Rightarrow> js_error + json list" where
  "filter_today env [] = Inr []"
| "filter_today env (entry # rest) =
     (case is_today env entry of
        Inl e \<Rightarrow> Inl e
      | Inr keep \<Rightarrow>
          (case filter_today env rest of
             Inl e \<Rightarrow> Inl e
           | Inr kept \<Rightarrow> Inr (if keep then entry # kept else kept)))"

text \<open>\<^verbatim>\<open>parsedLogs.filter(...)\<close>: only an array has the method.\<close>

definition todayLogs :: "js_env \<Rightarrow> json \<Rightarrow> js_error + json list" where
  "todayLogs env parsedLogs =
     (case parsedLogs of
        JNull \<Rightarrow> Inl null_deref
      | JArr entries \<Rightarrow> filter_today env entries
      | _ \<Rightarrow> Inl not_a_function)"

definition dashboardStats :: "js_env \<Rightarrow> string option \<Rightarrow> string option \<Rightarrow> string option
    \<Rightarrow> js_error + DashboardStats" where
  "dashboardStats env emailConfig storedFilters storedLogs =
     (case parse_or_empty env storedFilters of
        Inl e \<Rightarrow> Inl e
      | Inr parsedFilters \<Rightarrow>
          (case parse_or_empty env storedLogs of
             Inl e \<Rightarrow> Inl e
           | Inr parsedLogs \<Rightarrow>
               (case todayLogs env parsedLogs of
                  Inl e \<Rightarrow> Inl e
                | Inr todays \<Rightarrow>
                    (case js_length parsedFilters of
                       Inl e \<Rightarrow> Inl e
                     | Inr n \<Rightarrow>
                         Inr \<lparr>totalSMS = (case parsedLogs of JArr entries \<Rightarrow> length entries | _ \<Rightarrow> 0),
                              forwardedToday = length todays,
                              activeFilters = n,
                              emailConfigured = (case emailConfig of None \<Rightarrow> False | Some s \<Rightarrow> s \<noteq> [])\<rparr>))))"

definition loadDashboardData_reads :: "effect list" where
  "loadDashboardData_reads = [StorageGet ''email_config'', StorageGet ''sms_filters'', StorageGet ''sms_logs'']"

definition loadDashboardData_catch :: "effect list" where
  "loadDashboardData_catch = [ConsoleError ''Error loading dashboard data:'']"

definition loadDashboardData :: "js_env \<Rightarrow> string option outcome \<Rightarrow> string option outcome
    \<Rightarrow> string option outcome \<Rightarrow> home_screen \<Rightarrow> home_screen \<times> effect list" where
  "loadDashboardData env emailItem filtersItem logsItem st =
     (case emailItem of
        Rejected e \<Rightarrow> (st, loadDashboardData_reads @ loadDashboardData_catch)
      | Fulfilled emailConfig \<Rightarrow>
          (case filtersItem of
             Rejected e \<Rightarrow> (st, loadDashboardData_reads @ loadDashboardData_catch)
           | Fulfilled storedFilters \<Rightarrow>
               (case logsItem of
                  Rejected e \<Rightarrow> (st, loadDashboardData_reads @ loadDashboardData_catch)
                | Fulfilled storedLogs \<Rightarrow>
                    (case dashboardStats env emailConfig storedFilters storedLogs of
                       Inl e \<Rightarrow> (st, loadDashboardData_reads @ loadDashboardData_catch)
                     | Inr s \<Rightarrow> (st\<lparr>home_stats := s\<rparr>, loadDashboardData_reads)))))"

definition checkServiceStatus_catch :: "effect list" where
  "checkServiceStatus_catch = [ConsoleError ''Error checking service status:'']"

definition checkServiceStatus :: "string option outcome \<Rightarrow> home_screen \<Rightarrow> home_screen \<times> effect list" where
  "checkServiceStatus item st =
     (case item of
        Rejected e \<Rightarrow> (st, StorageGet ''service_status'' # checkServiceStatus_catch)
      | Fulfilled serviceStatus \<Rightarrow>
          (st\<lparr>isServiceRunning := (serviceStatus = Some ''running'')\<rparr>, [StorageGet ''service_status'']))"

definition toggleService_catch :: "effect list" where
  "toggleService_catch = [Alert ''Error'' ''Failed to toggle service'']"

definition toggleService :: "unit outcome \<Rightarrow> home_screen \<Rightarrow> home_screen \<times> effect list" where
  "toggleService written st =
     (let newStatus = (\<not> isServiceRunning st);
          word = (if newStatus then ''running'' else ''stopped'')
      in case written of
           Rejected e \<Rightarrow> (st, StorageSet ''service_status'' word # toggleService_catch)
         | Fulfilled u \<Rightarrow>
             (st\<lparr>isServiceRunning := newStatus\<rparr>,
              [StorageSet ''service_status'' word,
               Alert ''Service Status'' (''SMS forwarding service is now '' @ word)]))"

definition requestPermissions :: "js_env \<Rightarrow> bool \<Rightarrow> effect list" where
  "requestPermissions env confirmed =
     (if platform_os env = ''android'' then
        Alert ''Permissions Required''
          ''This app needs SMS permissions to monitor and forward messages. Please grant permissions in the next screen.''
        # (if confirmed then [OpenSettings] else [])
      else [])"

section \<open>The application: every handler of every screen\<close>

record app =
  logs_s :: logs_screen
  filters_s :: filters_screen
  email_s :: email_screen
  sms_s :: sms_screen
  settings_s :: settings_screen
  home_s :: home_screen

definition app_initial :: app where
  "app_initial = \<lparr>logs_s = logs_initial, filters_s = filters_initial, email_s = email_initial,
     sms_s = sms_initial, settings_s = settings_initial, home_s = home_initial\<rparr>"

text \<open>
  One event per handler, carrying the handler's arguments, the user's answer to a
  confirmation dialog, and the outcomes of the calls the handler awaits.  The screens
  call \<open>loadData\<close>, \<open>loadFilters\<close>, \<open>loadEmailConfig\<close>, \<open>loadSettings\<close>,
  \<open>loadDashboardData\<close> and \<open>checkServiceStatus\<close> once when they mount; every other
  event is a press or an edit.
\<close>

datatype event =
    LoadData "response outcome" "response outcome"
  | OnRefresh "response outcome" "response outcome"
  | ClearLogs bool
  | SetFilterStatus string
  | LoadFilters "response outcome"
  | OpenAddModal
  | OpenEditModal SMSFilter
  | SetFormData form_data
  | CloseModal
  | SaveFilter "response outcome" "response outcome"
  | ToggleFilter SMSFilter "response outcome" "response outcome"
  | DeleteFilter SMSFilter bool "response outcome" "response outcome"
  | LoadEmailConfig "response outcome"
  | SaveEmailConfig "response outcome"
  | TestEmailConfig "response outcome"
  | GetProviderPresets string
  | SetActiveTab string
  | SetConfigText string string
  | SetSmtpPort string
  | ToggleUseTls
  | SendTestSMS "response outcome"
  | UsePreset string string
  | SetTestData string string
  | LoadSettings "string option outcome"
  | UpdateSetting string bool "unit outcome"
  | ClearAllData bool "unit outcome"
  | ExportData
  | OpenAppPermissions bool
  | LoadDashboardData "string option outcome" "string option outcome" "string option outcome"
  | CheckServiceStatus "string option outcome"
  | ToggleService "unit outcome"
  | RequestPermissions bool

definition on_logs :: "(logs_screen \<Rightarrow> logs_screen \<times> effect list) \<Rightarrow> app \<Rightarrow> app \<times> effect list" where
  "on_logs h a = (let (s, t) = h (logs_s a) in (a\<lparr>logs_s := s\<rparr>, t))"

definition on_filters :: "(filters_screen \<Rightarrow> filters_screen \<times> effect list) \<Rightarrow> app \<Rightarrow> app \<times> effect list" where
  "on_filters h a = (let (s, t) = h (filters_s a) in (a\<lparr>filters_s := s\<rparr>, t))"

definition on_email :: "(email_screen \<Rightarrow> email_screen \<times> effect list) \<Rightarrow> app \<Rightarrow> app \<times> effect list" where
  "on_email h a = (let (s, t) = h (email_s a) in (a\<lparr>email_s := s\<rparr>, t))"

definition on_sms :: "(sms_screen \<Rightarrow> sms_screen \<times> effect list) \<Rightarrow> app \<Rightarrow> app \<times> effect list" where
  "on_sms h a = (let (s, t) = h (sms_s a) in (a\<lparr>sms_s := s\<rparr>, t))"

definition on_settings :: "(settings_screen \<Rightarrow> settings_screen \<times> effect list) \<Rightarrow> app \<Rightarrow> app \<times> effect list" where
  "on_settings h a = (let (s, t) = h (settings_s a) in (a\<lparr>settings_s := s\<rparr>, t))"

definition on_home :: "(home_screen \<Rightarrow> home_screen \<times> effect list) \<Rightarrow> app \<Rightarrow> app \<times> effect list" where
  "on_home h a = (let (s, t) = h (home_s a) in (a\<lparr>home_s := s\<rparr>, t))"

fun run :: "js_env \<Rightarrow> event \<Rightarrow> app \<Rightarrow> app \<times> effect list" where
  "run env (LoadData r1 r2) a = on_logs (loadData env r1 r2) a"
| "run env (OnRefresh r1 r2) a = on_logs (onRefresh env r1 r2) a"
| "run env (ClearLogs c) a = (a, clearLogs c)"
| "run env (SetFilterStatus s) a = (a\<lparr>logs_s := (logs_s a)\<lparr>filterStatus := s\<rparr>\<rparr>, [])"
| "run env (LoadFilters r) a = on_filters (loadFilters env r) a"
| "run env OpenAddModal a = (a\<lparr>filters_s := openAddModal (filters_s a)\<rparr>, [])"
| "run env (OpenEditModal f) a = (a\<lparr>filters_s := openEditModal f (filters_s a)\<rparr>, [])"
| "run env (SetFormData fd) a = (a\<lparr>filters_s := (filters_s a)\<lparr>formData := fd\<rparr>\<rparr>, [])"
| "run env CloseModal a = (a\<lparr>filters_s := (filters_s a)\<lparr>modalVisible := False\<rparr>\<rparr>, [])"
| "run env (SaveFilter r reload) a = on_filters (saveFilter env r reload) a"
| "run env (ToggleFilter f r reload) a = on_filters (toggleFilter env f r reload) a"
| "run env (DeleteFilter f c r reload) a = on_filters (deleteFilter env f c r reload) a"
| "run env (LoadEmailConfig r) a = on_email (loadEmailConfig env r) a"
| "run env (SaveEmailConfig r) a = on_email (saveEmailConfig env r) a"
| "run env (TestEmailConfig r) a = on_email (testEmailConfig env r) a"
| "run env (GetProviderPresets p) a = on_email (getProviderPresets p) a"
| "run env (SetActiveTab t) a = (a\<lparr>email_s := setActiveTab t (email_s a)\<rparr>, [])"
| "run env (SetConfigText k v) a = (a\<lparr>email_s := setConfigText k v (email_s a)\<rparr>, [])"
| "run env (SetSmtpPort text) a = (a\<lparr>email_s := setSmtpPort text (email_s a)\<rparr>, [])"
| "run env ToggleUseTls a = (a\<lparr>email_s := toggleUseTls (email_s a)\<rparr>, [])"
| "run env (SendTestSMS r) a = on_sms (sendTestSMS env r) a"
| "run env (UsePreset s c) a = (a\<lparr>sms_s := usePreset s c (sms_s a)\<rparr>, [])"
| "run env (SetTestData s c) a = (a\<lparr>sms_s := (sms_s a)\<lparr>testData_sender := s, testData_content := c\<rparr>\<rparr>, [])"
| "run env (LoadSettings i) a = on_settings (loadSettings env i) a"
| "run env (UpdateSetting k v w) a = on_settings (updateSetting env k v w) a"
| "run env (ClearAllData c w) a = (a, clearAllData c w)"
| "run env ExportData a = (a, exportData)"
| "run env (OpenAppPermissions c) a = (a, openAppPermissions c)"
| "run env (LoadDashboardData i1 i2 i3) a = on_home (loadDashboardData env i1 i2 i3) a"
| "run env (CheckServiceStatus i) a = on_home (checkServiceStatus i) a"
| "run env (ToggleService w) a = on_home (toggleService w) a"
| "run env (RequestPermissions c) a = (a, requestPermissions env c)"

section \<open>Notions used in the properties\<close>

text \<open>
  The notions below are not in the source: they are what the properties are stated with.
\<close>

subsection \<open>Inputs\<close>


text \<open>The effects that are requests to the backend.\<close>

definition is_fetch :: "effect \<Rightarrow> bool" where
  "is_fetch f = (case f of Fetch m u b \<Rightarrow> True | _ \<Rightarrow> False)"

text \<open>The answer \<open>data\<close> with \<open>data.config.smtp_password\<close> replaced by \<open>p\<close>, where
  \<open>data\<close> is an object that has an object \<open>config\<close>; any other answer as it is.\<close>

definition with_config_password :: "json \<Rightarrow> json \<Rightarrow> json" where
  "with_config_password p data =
     (case data of
        JObj fs \<Rightarrow>
          (case map_of fs ''config'' of
             Some (JObj cfg) \<Rightarrow> JObj (AList.update ''config'' (JObj (AList.update ''smtp_password'' p cfg)) fs)
           | _ \<Rightarrow> data)
      | _ \<Rightarrow> data)"


subsection \<open>Stored log entries\<close>

text \<open>The timestamp of a stored entry, whether it is on the current date, and the entry
  with its forwarded flag overwritten.\<close>

definition timestamp_of :: "json \<Rightarrow> json option" where
  "timestamp_of entry = (case js_get entry ''timestamp'' of Inr v \<Rightarrow> v | Inl e \<Rightarrow> None)"

definition on_current_date :: "js_env \<Rightarrow> json \<Rightarrow> bool" where
  "on_current_date env entry = (toDateString env (timestamp_of entry) = today env)"

definition set_forwarded :: "bool \<Rightarrow> json \<Rightarrow> json" where
  "set_forwarded b entry =
     (case entry of JObj fs \<Rightarrow> JObj (AList.update ''forwarded'' (JBool b) fs) | _ \<Rightarrow> entry)"

subsection \<open>Traces\<close>

text \<open>
  Calls that leave the screen (requests and storage calls), console errors, alerts, and the
  alerts that report an error: the ones titled Error, Test Error or Test Failed.
\<close>

definition is_io :: "effect \<Rightarrow> bool" where
  "is_io f = (case f of Fetch m u b \<Rightarrow> True | StorageGet k \<Rightarrow> True | StorageSet k v \<Rightarrow> True
                | StorageMultiRemove ks \<Rightarrow> True | _ \<Rightarrow> False)"

definition is_console :: "effect \<Rightarrow> bool" where
  "is_console f = (case f of ConsoleError m \<Rightarrow> True | _ \<Rightarrow> False)"

definition is_alert :: "effect \<Rightarrow> bool" where
  "is_alert f = (case f of Alert t m \<Rightarrow> True | _ \<Rightarrow> False)"

definition is_error_alert :: "effect \<Rightarrow> bool" where
  "is_error_alert f =
     (case f of Alert t m \<Rightarrow> t = ''Error'' \<or> t = ''Test Error'' \<or> t = ''Test Failed'' | _ \<Rightarrow> False)"

text \<open>No request or storage call follows a console error or an error alert.\<close>

fun no_io_after_report :: "effect list \<Rightarrow> bool" where
  "no_io_after_report [] = True"
| "no_io_after_report (f # fs) =
     ((is_console f \<or> is_error_alert f \<longrightarrow> filter is_io fs = []) \<and> no_io_after_report fs)"

text \<open>A trace in which nothing is tried twice: no call occurs twice, there is at most one
  console error and at most one error alert, and no call follows a report.\<close>

definition one_attempt :: "effect list \<Rightarrow> bool" where
  "one_attempt tr =
     (distinct (filter is_io tr)
      \<and> length (filter is_console tr) \<le> 1
      \<and> length (filter is_error_alert tr) \<le> 1
      \<and> no_io_after_report tr)"

text \<open>The loading and refreshing flags that the handler of an event sets are off.\<close>

fun flags_reset :: "event \<Rightarrow> app \<Rightarrow> bool" where
  "flags_reset (LoadData r1 r2) a = (\<not> logs_loading (logs_s a) \<and> \<not> refreshing (logs_s a))"
| "flags_reset (OnRefresh r1 r2) a = (\<not> logs_loading (logs_s a) \<and> \<not> refreshing (logs_s a))"
| "flags_reset (LoadFilters r) a = (\<not> filters_loading (filters_s a))"
| "flags_reset (SaveEmailConfig r) a = (\<not> config_loading (email_s a))"
| "flags_reset (TestEmailConfig r) a = (\<not> testLoading (email_s a))"
| "flags_reset (SendTestSMS r) a = (\<not> sms_loading (sms_s a))"
| "flags_reset _ a = True"

text \<open>All catch blocks of the screens, and the shape they have.\<close>

definition catch_blocks :: "js_error \<Rightarrow> effect list list" where
  "catch_blocks e =
     [loadData_catch, loadFilters_catch, saveFilter_catch e, toggleFilter_catch, deleteFilter_catch,
      loadEmailConfig_catch, saveEmailConfig_catch e, testEmailConfig_catch e, sendTestSMS_catch e,
      loadSettings_catch, updateSetting_catch, clearAllData_catch, loadDashboardData_catch,
      checkServiceStatus_catch, toggleService_catch]"

definition report_only :: "effect list \<Rightarrow> bool" where
  "report_only c =
     ((\<exists>l. c = [ConsoleError l]) \<or> (\<exists>t m. c = [Alert t m]) \<or> (\<exists>l t m. c = [ConsoleError l, Alert t m]))"

subsection \<open>Requests and endpoints\<close>

text \<open>The method and URL of each request of a trace; the requests issued by some event in
  some state; the endpoints of the backend; an effect that is no request or a request to
  one of them.\<close>

definition request_of :: "effect \<Rightarrow> (http_method \<times> string) option" where
  "request_of f = (case f of Fetch m u b \<Rightarrow> Some (m, u) | _ \<Rightarrow> None)"

definition requests_of :: "effect list \<Rightarrow> (http_method \<times> string) list" where
  "requests_of tr = List.map_filter request_of tr"

definition issued :: "js_env \<Rightarrow> (http_method \<times> string) set" where
  "issued env = {r. \<exists>ev a. r \<in> set (requests_of (snd (run env ev a)))}"

definition endpoints :: "js_env \<Rightarrow> (http_method \<times> string) set" where
  "endpoints env =
     {(POST, backendUrl env @ ''/api/sms/forward''),
      (GET, backendUrl env @ ''/api/sms/messages''),
      (GET, backendUrl env @ ''/api/sms/stats''),
      (GET, backendUrl env @ ''/api/filters''),
      (POST, backendUrl env @ ''/api/filters''),
      (GET, backendUrl env @ ''/api/email/config''),
      (POST, backendUrl env @ ''/api/email/config''),
      (POST, backendUrl env @ ''/api/email/test'')}
     \<union> {(PUT, backendUrl env @ ''/api/filters/'' @ i) | i. True}
     \<union> {(DELETE, backendUrl env @ ''/api/filters/'' @ i) | i. True}"

definition allowed :: "js_env \<Rightarrow> effect \<Rightarrow> bool" where
  "allowed env f = (case request_of f of None \<Rightarrow> True | Some r \<Rightarrow> r \<in> endpoints env)"

subsection \<open>Failing calls\<close>

text \<open>
  A rejected promise; a response that arrived and is not ok.  \<open>call_threw\<close>: the fetch
  or storage call that the handler of the event awaits first was rejected.
  \<open>reload_threw\<close>: the reload of the filters after a change was rejected.
  \<open>response_not_ok\<close>: the response was not ok, for the handlers that test
  \<open>response.ok\<close>.  \<open>console_only\<close>: the four loaders whose catch block only logs.
  \<open>reported\<close>: what the trace of a failed event contains.
\<close>

definition rejected :: "'a outcome \<Rightarrow> bool" where
  "rejected r = (case r of Rejected e \<Rightarrow> True | Fulfilled x \<Rightarrow> False)"

definition not_ok :: "response outcome \<Rightarrow> bool" where
  "not_ok r = (case r of Rejected e \<Rightarrow> False | Fulfilled x \<Rightarrow> \<not> ok x)"

fun call_threw :: "event \<Rightarrow> bool" where
  "call_threw (LoadData r1 r2) = (rejected r1 \<or> rejected r2)"
| "call_threw (OnRefresh r1 r2) = (rejected r1 \<or> rejected r2)"
| "call_threw (LoadFilters r) = rejected r"
| "call_threw (SaveFilter r reload) = rejected r"
| "call_threw (ToggleFilter f r reload) = rejected r"
| "call_threw (DeleteFilter f c r reload) = rejected r"
| "call_threw (LoadEmailConfig r) = rejected r"
| "call_threw (SaveEmailConfig r) = rejected r"
| "call_threw (TestEmailConfig r) = rejected r"
| "call_threw (SendTestSMS r) = rejected r"
| "call_threw (LoadSettings i) = rejected i"
| "call_threw (UpdateSetting k v w) = rejected w"
| "call_threw (ClearAllData c w) = rejected w"
| "call_threw (LoadDashboardData i1 i2 i3) = (rejected i1 \<or> rejected i2 \<or> rejected i3)"
| "call_threw (CheckServiceStatus i) = rejected i"
| "call_threw (ToggleService w) = rejected w"
| "call_threw _ = False"

fun reload_threw :: "event \<Rightarrow> bool" where
  "reload_threw (SaveFilter r reload) = rejected reload"
| "reload_threw (ToggleFilter f r reload) = rejected reload"
| "reload_threw (DeleteFilter f c r reload) = rejected reload"
| "reload_threw _ = False"

fun response_not_ok :: "event \<Rightarrow> bool" where
  "response_not_ok (SaveFilter r reload) = not_ok r"
| "response_not_ok (ToggleFilter f r reload) = not_ok r"
| "response_not_ok (DeleteFilter f c r reload) = not_ok r"
| "response_not_ok (SaveEmailConfig r) = not_ok r"
| "response_not_ok (SendTestSMS r) = not_ok r"
| "response_not_ok _ = False"

fun console_only :: "event \<Rightarrow> bool" where
  "console_only (LoadEmailConfig r) = True"
| "console_only (LoadSettings i) = True"
| "console_only (LoadDashboardData i1 i2 i3) = True"
| "console_only (CheckServiceStatus i) = True"
| "console_only _ = False"

definition reported :: "event \<Rightarrow> effect list \<Rightarrow> bool" where
  "reported ev tr =
     (if console_only ev then (\<exists>l. ConsoleError l \<in> set tr) \<and> filter is_alert tr = []
      else (\<exists>f \<in> set tr. is_error_alert f))"

section \<open>Example inputs\<close>

definition example_log :: "bool \<Rightarrow> string \<Rightarrow> SMSLog" where
  "example_log fwd status = \<lparr>log_id = ''1'', sender = ''BANK'', content = ''hello'',
     timestamp = ''2024-01-15T10:00:00Z'', forwarded = fwd, forwarded_at = None,
     email_status = status, error_message = None\<rparr>"

text \<open>
  An environment for the examples: the fallback backend URL of the source and simple
  stand-ins for the runtime functions.
\<close>

definition example_parse :: "string \<Rightarrow> js_error + json" where
  "example_parse s =
     (if s = ''[]'' then Inr (JArr [])
      else if s = ''LOGS'' then
        Inr (JArr [JObj [(''timestamp'', JStr ''2024-01-15T09:00:00Z''), (''forwarded'', JBool False)],
                   JObj [(''timestamp'', JStr ''2024-01-15T10:30:00Z''), (''forwarded'', JBool True)],
                   JObj [(''timestamp'', JStr ''2024-01-14T23:00:00Z''), (''forwarded'', JBool True)]])
      else if s = ''FILTERS'' then Inr (JArr [JObj [(''name'', JStr ''bank'')]])
      else Inl (SyntaxError ''Unexpected token''))"

definition example_env :: js_env where
  "example_env =
     \<lparr>backendUrl = ''http://localhost:8001'',
      String_of = (\<lambda>v. case v of Some (JStr s) \<Rightarrow> s | Some _ \<Rightarrow> ''[object Object]'' | None \<Rightarrow> ''undefined''),
      JSON_parse = example_parse,
      JSON_stringify = (\<lambda>j. ''{}''),
      toDateString = (\<lambda>v. case v of Some (JStr s) \<Rightarrow> take 10 s | _ \<Rightarrow> ''Invalid Date''),
      today = ''2024-01-15'',
      now_iso = ''2024-01-15T10:00:00.000Z'',
      platform_os = ''android''\<rparr>"

definition network_down :: js_error where
  "network_down = NetworkError ''Network request failed''"

definition ok_response :: "json \<Rightarrow> response outcome" where
  "ok_response body = Fulfilled \<lparr>ok = True, json_result = Fulfilled body\<rparr>"

definition error_response :: "json \<Rightarrow> response outcome" where
  "error_response body = Fulfilled \<lparr>ok = False, json_result = Fulfilled body\<rparr>"

definition example_filters_screen :: "string \<Rightarrow> string \<Rightarrow> string \<Rightarrow> filters_screen" where
  "example_filters_screen nm ty v =
     filters_initial\<lparr>formData := \<lparr>form_name = nm, form_filter_type = ty, form_filter_value = v\<rparr>\<rparr>"

definition example_email_screen :: "string \<Rightarrow> email_screen" where
  "example_email_screen tab =
     setActiveTab tab (setConfigText ''recipient_email'' ''me@example.com'' email_initial)"

definition stored_config_response :: "json \<Rightarrow> json" where
  "stored_config_response pw =
     JObj [(''status'', JStr ''configured''),
           (''config'', JObj [(''email_type'', JStr ''smtp''), (''smtp_server'', JStr ''smtp.gmail.com''),
                              (''smtp_password'', pw), (''recipient_email'', JStr ''me@example.com'')])]"

definition example_filter :: "string \<Rightarrow> SMSFilter" where
  "example_filter i = \<lparr>filter_id = i, name = ''bank'', filter_type = ''sender'',
     filter_value = Some ''BANK'', enabled = True, created_at = ''2024-01-15T10:00:00Z''\<rparr>"

section \<open>Properties\<close>

subsection \<open>Numbers and their text\<close>










subsection \<open>Log viewer: labels and the success rate\<close>











text \<open>
  Claim C3.  Every log entry gets one label and one icon, decided by the forwarded flag and
  the delivery status alone: Forwarded exactly when the flag is set, otherwise Failed,
  Filtered or No Config for the statuses failed, filtered and no_config, and Pending for
  every other status, sent included.
\<close>

theorem status_label_and_icon_total:
  "(getStatusLabel entry = ''Forwarded'') = forwarded entry
   \<and> (forwarded entry \<longrightarrow> getStatusIcon entry = \<lparr>icon_name = ''checkmark-circle'', icon_color = ''#4CAF50''\<rparr>)
   \<and> (\<not> forwarded entry \<and> email_status entry = ''failed'' \<longrightarrow>
        getStatusLabel entry = ''Failed''
        \<and> getStatusIcon entry = \<lparr>icon_name = ''close-circle'', icon_color = ''#F44336''\<rparr>)
   \<and> (\<not> forwarded entry \<and> email_status entry = ''filtered'' \<longrightarrow>
        getStatusLabel entry = ''Filtered''
        \<and> getStatusIcon entry = \<lparr>icon_name = ''filter-circle'', icon_color = ''#FF9800''\<rparr>)
   \<and> (\<not> forwarded entry \<and> email_status entry = ''no_config'' \<longrightarrow>
        getStatusLabel entry = ''No Config''
        \<and> getStatusIcon entry = \<lparr>icon_name = ''settings'', icon_color = ''#FF5722''\<rparr>)
   \<and> (\<not> forwarded entry \<and> email_status entry \<notin> {''failed'', ''filtered'', ''no_config''} \<longrightarrow>
        getStatusLabel entry = ''Pending''
        \<and> getStatusIcon entry = \<lparr>icon_name = ''time'', icon_color = ''#999''\<rparr>)
   \<and> (\<not> forwarded entry \<and> email_status entry = ''sent'' \<longrightarrow> getStatusLabel entry = ''Pending'')"
  by (simp add: getStatusLabel_def getStatusIcon_def)

theorem status_label_and_icon_total_witness:
  "getStatusLabel (example_log True ''sent'') = ''Forwarded''
   \<and> getStatusLabel (example_log False ''failed'') = ''Failed''
   \<and> getStatusLabel (example_log False ''filtered'') = ''Filtered''
   \<and> getStatusLabel (example_log False ''no_config'') = ''No Config''
   \<and> getStatusLabel (example_log False ''queued'') = ''Pending''
   \<and> getStatusLabel (example_log False ''sent'') = ''Pending''
   \<and> getStatusIcon (example_log False ''sent'') = \<lparr>icon_name = ''time'', icon_color = ''#999''\<rparr>"
  using status_label_and_icon_total [of "example_log True ''sent''"]
        status_label_and_icon_total [of "example_log False ''failed''"]
        status_label_and_icon_total [of "example_log False ''filtered''"]
        status_label_and_icon_total [of "example_log False ''no_config''"]
        status_label_and_icon_total [of "example_log False ''queued''"]
        status_label_and_icon_total [of "example_log False ''sent''"]
  by (simp add: example_log_def)

subsection \<open>The SMTP port field\<close>


lemma map_of_update_other: "k' \<noteq> k \<Longrightarrow> map_of (AList.update k v al) k' = map_of al k'"
  by (simp add: update_conv')







subsection \<open>What the filter form submits\<close>

lemma loadFilters_settle_no_fetch: "Fetch m u b \<notin> set (snd (loadFilters_settle r s))"
  by (auto simp: loadFilters_settle_def loadFilters_catch_def split: outcome.splits)

lemma loadFilters_settle_filter_fetch: "filter is_fetch (snd (loadFilters_settle r s)) = []"
  by (auto simp: loadFilters_settle_def loadFilters_catch_def is_fetch_def split: outcome.splits)

lemma filterData_fields:
  "map_of (filterData fd) ''name'' = Some (JStr (form_name fd))"
  "map_of (filterData fd) ''filter_type'' = Some (JStr (form_filter_type fd))"
  "map_of (filterData fd) ''filter_value'' =
     Some (if form_filter_type fd = ''all'' then JNull else JStr (form_filter_value fd))"
  "map_of (filterData fd) ''enabled'' = Some (JBool True)"
  by (simp_all add: filterData_def)

lemma saveFilter_fetches:
  assumes "Fetch m u b \<in> set (snd (saveFilter env resp reload st))" and "m \<noteq> GET"
  shows "b = Some (JObj (filterData (formData st)))
         \<and> js_trim (form_name (formData st)) \<noteq> []
         \<and> (form_filter_type (formData st) \<noteq> ''all'' \<longrightarrow> js_trim (form_filter_value (formData st)) \<noteq> [])"
proof -
  have req: "saveFilter_request env st = Fetch m' u' b' \<Longrightarrow> b' = Some (JObj (filterData (formData st)))"
    for m' u' b'
    by (auto simp: saveFilter_request_def split: option.splits)
  from assms show ?thesis
    using loadFilters_settle_no_fetch [of m u b reload "st\<lparr>modalVisible := False\<rparr>"]
    by (auto simp: saveFilter_def saveFilter_catch_def loadFilters_request_def Let_def
             split: if_splits outcome.splits sum.splits prod.splits dest: req req [OF sym])
qed

text \<open>
  Claim C4.  Every payload that saveFilter submits (the POST that creates, the PUT that
  updates) has filter_value null exactly when filter_type is all, a name that is not
  blank, and for the types sender and keyword a filter_value that is not blank; a blank
  name, or a blank value with a type other than all, is rejected before any request.
\<close>

theorem saveFilter_payload_validated:
  "(\<forall>m u b. Fetch m u b \<in> set (snd (saveFilter env resp reload st)) \<and> m \<noteq> GET \<longrightarrow>
      (\<exists>fs nm ty. b = Some (JObj fs)
         \<and> map_of fs ''name'' = Some (JStr nm) \<and> js_trim nm \<noteq> []
         \<and> map_of fs ''filter_type'' = Some (JStr ty)
         \<and> ((map_of fs ''filter_value'' = Some JNull) = (ty = ''all''))
         \<and> (ty = ''sender'' \<or> ty = ''keyword'' \<longrightarrow>
              (\<exists>v. map_of fs ''filter_value'' = Some (JStr v) \<and> js_trim v \<noteq> []))))
   \<and> (js_trim (form_name (formData st)) = []
        \<or> (form_filter_type (formData st) \<noteq> ''all'' \<and> js_trim (form_filter_value (formData st)) = [])
       \<longrightarrow> filter is_fetch (snd (saveFilter env resp reload st)) = [])"
proof (intro conjI allI impI)
  fix m u b
  assume "Fetch m u b \<in> set (snd (saveFilter env resp reload st)) \<and> m \<noteq> GET"
  then have f: "b = Some (JObj (filterData (formData st)))"
    and n: "js_trim (form_name (formData st)) \<noteq> []"
    and v: "form_filter_type (formData st) \<noteq> ''all'' \<longrightarrow> js_trim (form_filter_value (formData st)) \<noteq> []"
    using saveFilter_fetches [of m u b env resp reload st] by auto
  show "\<exists>fs nm ty. b = Some (JObj fs)
         \<and> map_of fs ''name'' = Some (JStr nm) \<and> js_trim nm \<noteq> []
         \<and> map_of fs ''filter_type'' = Some (JStr ty)
         \<and> ((map_of fs ''filter_value'' = Some JNull) = (ty = ''all''))
         \<and> (ty = ''sender'' \<or> ty = ''keyword'' \<longrightarrow>
              (\<exists>v. map_of fs ''filter_value'' = Some (JStr v) \<and> js_trim v \<noteq> []))"
    using f n v
    by (intro exI [of _ "filterData (formData st)"] exI [of _ "form_name (formData st)"]
          exI [of _ "form_filter_type (formData st)"])
       (auto simp: filterData_fields)
next
  assume "js_trim (form_name (formData st)) = []
        \<or> (form_filter_type (formData st) \<noteq> ''all'' \<and> js_trim (form_filter_value (formData st)) = [])"
  then show "filter is_fetch (snd (saveFilter env resp reload st)) = []"
    by (auto simp: saveFilter_def is_fetch_def)
qed

theorem saveFilter_payload_validated_witness:
  "Fetch POST ''http://localhost:8001/api/filters''
      (Some (JObj [(''name'', JStr ''bank''), (''filter_type'', JStr ''sender''),
                   (''filter_value'', JStr ''BANK''), (''enabled'', JBool True)]))
     \<in> set (snd (saveFilter example_env (ok_response JNull) (ok_response (JArr []))
                  (example_filters_screen ''bank'' ''sender'' ''BANK'')))
   \<and> POST \<noteq> GET
   \<and> js_trim ''BANK'' \<noteq> []
   \<and> js_trim ''  '' = []
   \<and> filter is_fetch (snd (saveFilter example_env (ok_response JNull) (ok_response (JArr []))
                  (example_filters_screen ''bank'' ''keyword'' ''  ''))) = []"
proof -
  have t: "js_trim ''  '' = []" "js_trim ''BANK'' = ''BANK''" "js_trim ''bank'' = ''bank''"
    by (simp_all add: js_trim_def is_ws_def)
  have mem: "Fetch POST ''http://localhost:8001/api/filters''
      (Some (JObj [(''name'', JStr ''bank''), (''filter_type'', JStr ''sender''),
                   (''filter_value'', JStr ''BANK''), (''enabled'', JBool True)]))
     \<in> set (snd (saveFilter example_env (ok_response JNull) (ok_response (JArr []))
                  (example_filters_screen ''bank'' ''sender'' ''BANK'')))"
    by (simp add: saveFilter_def example_filters_screen_def filters_initial_def t ok_response_def
        saveFilter_request_def filterData_def example_env_def loadFilters_settle_def
        loadFilters_request_def)
  have "form_filter_type (formData (example_filters_screen ''bank'' ''keyword'' ''  '')) \<noteq> ''all''
        \<and> js_trim (form_filter_value (formData (example_filters_screen ''bank'' ''keyword'' ''  ''))) = []"
    by (simp add: example_filters_screen_def t)
  with mem t show ?thesis
    using saveFilter_payload_validated [of example_env "ok_response JNull" "ok_response (JArr [])"
        "example_filters_screen ''bank'' ''keyword'' ''  ''"]
    by simp
qed

subsection \<open>What the email configuration form submits\<close>






subsection \<open>The stored password is not shown\<close>

lemma js_get_with_password:
  "js_get (with_config_password p data) k =
     (if k = ''config'' \<and> (\<exists>fs cfg. data = JObj fs \<and> map_of fs ''config'' = Some (JObj cfg))
      then (case data of JObj fs \<Rightarrow> (case map_of fs ''config'' of
              Some (JObj cfg) \<Rightarrow> Inr (Some (JObj (AList.update ''smtp_password'' p cfg)))
            | _ \<Rightarrow> js_get data k) | _ \<Rightarrow> js_get data k)
      else js_get data k)"
  by (auto simp: with_config_password_def update_conv' split: json.splits option.splits)

lemma apply_loaded_config_password:
  "apply_loaded_config (JObj (AList.update ''smtp_password'' p cfg)) st = apply_loaded_config (JObj cfg) st"
  by (simp add: apply_loaded_config_def update_conv')

lemma loadEmailConfig_ignores_password:
  "loadEmailConfig env (Fulfilled \<lparr>ok = k, json_result = Fulfilled (with_config_password p data)\<rparr>) st
   = loadEmailConfig env (Fulfilled \<lparr>ok = k, json_result = Fulfilled (with_config_password p' data)\<rparr>) st"
proof (cases "\<exists>fs cfg. data = JObj fs \<and> map_of fs ''config'' = Some (JObj cfg)")
  case True
  then obtain fs cfg where d: "data = JObj fs" "map_of fs ''config'' = Some (JObj cfg)" by blast
  then show ?thesis
    by (simp add: loadEmailConfig_def with_config_password_def update_conv' apply_loaded_config_password)
next
  case False
  then have "with_config_password p data = data" "with_config_password p' data = data"
    by (auto simp: with_config_password_def split: json.splits option.splits)
  then show ?thesis by simp
qed

lemma loadEmailConfig_state:
  "fst (loadEmailConfig env resp st) = st
   \<or> (\<exists>cfg. fst (loadEmailConfig env resp st) = apply_loaded_config cfg st)"
  by (auto simp: loadEmailConfig_def split: outcome.splits sum.splits option.splits)

lemma apply_loaded_config_blank:
  "map_of (config (apply_loaded_config cfg st)) ''smtp_password'' = Some (JStr [])"
  by (simp add: apply_loaded_config_def update_conv')

text \<open>
  Claim C9.  Whatever the server answers to GET /api/email/config, loading either leaves
  the form as it was or leaves smtp_password empty; right after the screen mounts the
  password is empty in every case; and the state after loading does not depend on the
  smtp_password of the answer.
\<close>

theorem loaded_config_password_blank:
  "(fst (loadEmailConfig env resp st) = st
     \<or> map_of (config (fst (loadEmailConfig env resp st))) ''smtp_password'' = Some (JStr []))
   \<and> map_of (config (fst (loadEmailConfig env resp email_initial))) ''smtp_password'' = Some (JStr [])
   \<and> loadEmailConfig env (Fulfilled \<lparr>ok = k, json_result = Fulfilled (with_config_password p data)\<rparr>) st
     = loadEmailConfig env (Fulfilled \<lparr>ok = k, json_result = Fulfilled (with_config_password p' data)\<rparr>) st"
proof (intro conjI)
  show "fst (loadEmailConfig env resp st) = st
     \<or> map_of (config (fst (loadEmailConfig env resp st))) ''smtp_password'' = Some (JStr [])"
    using loadEmailConfig_state [of env resp st] by (auto simp: apply_loaded_config_blank)
  have "map_of (config email_initial) ''smtp_password'' = Some (JStr [])"
    by (simp add: email_initial_def config_initial_def)
  then show "map_of (config (fst (loadEmailConfig env resp email_initial))) ''smtp_password'' = Some (JStr [])"
    using loadEmailConfig_state [of env resp email_initial] by (auto simp: apply_loaded_config_blank)
  show "loadEmailConfig env (Fulfilled \<lparr>ok = k, json_result = Fulfilled (with_config_password p data)\<rparr>) st
     = loadEmailConfig env (Fulfilled \<lparr>ok = k, json_result = Fulfilled (with_config_password p' data)\<rparr>) st"
    by (rule loadEmailConfig_ignores_password)
qed

lemma loaded_example:
  "config (fst (loadEmailConfig example_env (ok_response (stored_config_response (JStr ''hunter2''))) email_initial))
   = [(''email_type'', JStr ''smtp''), (''smtp_server'', JStr ''smtp.gmail.com''),
      (''smtp_password'', JStr []), (''recipient_email'', JStr ''me@example.com'')]"
  by (simp add: loadEmailConfig_def ok_response_def stored_config_response_def apply_loaded_config_def)

subsection \<open>The dashboard statistics\<close>

lemma is_today_on_current_date: "entry \<noteq> JNull \<Longrightarrow> is_today env entry = Inr (on_current_date env entry)"
  by (cases entry) (simp_all add: is_today_def on_current_date_def timestamp_of_def)

lemma filter_today_filter:
  "JNull \<notin> set entries \<Longrightarrow> filter_today env entries = Inr (filter (on_current_date env) entries)"
  by (induction entries) (auto simp: is_today_on_current_date)

lemma timestamp_of_set_forwarded: "timestamp_of (set_forwarded b entry) = timestamp_of entry"
  by (cases entry) (simp_all add: timestamp_of_def set_forwarded_def update_conv')

text \<open>
  Claim C5.  When the stored logs parse to a list of entries (none of them null) and the
  stored filters to a value with a length, loading the dashboard sets Total SMS to the
  number of stored entries and Forwarded Today to the number of entries whose timestamp
  is on the current date; whether an entry is on the current date does not depend on its
  forwarded flag.
\<close>

theorem dashboard_counts_by_date_only:
  assumes "parse_or_empty env logsItem = Inr (JArr entries)"
    and "JNull \<notin> set entries"
    and "parse_or_empty env filtersItem = Inr parsedFilters"
    and "js_length parsedFilters = Inr n"
  shows "loadDashboardData env (Fulfilled emailItem) (Fulfilled filtersItem) (Fulfilled logsItem) st
         = (st\<lparr>home_stats :=
               \<lparr>totalSMS = length entries,
                forwardedToday = length (filter (on_current_date env) entries),
                activeFilters = n,
                emailConfigured = (emailItem \<noteq> None \<and> emailItem \<noteq> Some [])\<rparr>\<rparr>,
            loadDashboardData_reads)
         \<and> on_current_date env (set_forwarded b entry) = on_current_date env entry"
proof -
  have "dashboardStats env emailItem filtersItem logsItem
        = Inr \<lparr>totalSMS = length entries,
                forwardedToday = length (filter (on_current_date env) entries),
                activeFilters = n,
                emailConfigured = (emailItem \<noteq> None \<and> emailItem \<noteq> Some [])\<rparr>"
    using assms
    by (auto simp: dashboardStats_def todayLogs_def filter_today_filter split: option.splits)
  then show ?thesis
    by (simp add: loadDashboardData_def on_current_date_def timestamp_of_set_forwarded)
qed

theorem dashboard_counts_by_date_only_witness:
  "parse_or_empty example_env (Some ''LOGS'') = Inr (JArr
       [JObj [(''timestamp'', JStr ''2024-01-15T09:00:00Z''), (''forwarded'', JBool False)],
        JObj [(''timestamp'', JStr ''2024-01-15T10:30:00Z''), (''forwarded'', JBool True)],
        JObj [(''timestamp'', JStr ''2024-01-14T23:00:00Z''), (''forwarded'', JBool True)]])
   \<and> parse_or_empty example_env (Some ''FILTERS'') = Inr (JArr [JObj [(''name'', JStr ''bank'')]])
   \<and> js_length (JArr [JObj [(''name'', JStr ''bank'')]]) = Inr (Some (JNum 1))
   \<and> home_stats (fst (loadDashboardData example_env (Fulfilled None) (Fulfilled (Some ''FILTERS''))
                         (Fulfilled (Some ''LOGS'')) home_initial))
       = \<lparr>totalSMS = 3, forwardedToday = 2, activeFilters = Some (JNum 1), emailConfigured = False\<rparr>"
proof -
  let ?entries = "[JObj [(''timestamp'', JStr ''2024-01-15T09:00:00Z''), (''forwarded'', JBool False)],
        JObj [(''timestamp'', JStr ''2024-01-15T10:30:00Z''), (''forwarded'', JBool True)],
        JObj [(''timestamp'', JStr ''2024-01-14T23:00:00Z''), (''forwarded'', JBool True)]]"
  have p: "parse_or_empty example_env (Some ''LOGS'') = Inr (JArr ?entries)"
    by (simp add: parse_or_empty_def example_env_def example_parse_def)
  have q: "parse_or_empty example_env (Some ''FILTERS'') = Inr (JArr [JObj [(''name'', JStr ''bank'')]])"
    by (simp add: parse_or_empty_def example_env_def example_parse_def)
  have l: "js_length (JArr [JObj [(''name'', JStr ''bank'')]]) = Inr (Some (JNum 1))"
    by simp
  have nn: "JNull \<notin> set ?entries" by simp
  have c: "length (filter (on_current_date example_env) ?entries) = 2"
    by (simp add: on_current_date_def timestamp_of_def example_env_def)
  show ?thesis
    using dashboard_counts_by_date_only [OF p nn q l, of None home_initial] p q l c
    by simp
qed

subsection \<open>One attempt per event\<close>

lemmas effect_preds = is_io_def is_console_def is_alert_def is_error_alert_def one_attempt_def

lemma loadData_one_attempt: "one_attempt (snd (loadData env r1 r2 st))"
  by (auto simp: loadData_def loadData_requests_def loadData_catch_def effect_preds
           split: outcome.splits)

lemma onRefresh_one_attempt: "one_attempt (snd (onRefresh env r1 r2 st))"
  by (simp add: onRefresh_def loadData_one_attempt)

lemma loadFilters_one_attempt: "one_attempt (snd (loadFilters env r st))"
  by (auto simp: loadFilters_def loadFilters_settle_def loadFilters_request_def loadFilters_catch_def
           effect_preds split: outcome.splits)

lemma loadFilters_settle_effects:
  "snd (loadFilters_settle r s) = [] \<or> snd (loadFilters_settle r s) = loadFilters_catch"
  by (auto simp: loadFilters_settle_def split: outcome.splits)

lemma filters_requests:
  "is_io (saveFilter_request env st)" "\<not> is_console (saveFilter_request env st)"
  "\<not> is_error_alert (saveFilter_request env st)" "saveFilter_request env st \<noteq> loadFilters_request env"
  "is_io (toggleFilter_request env f)" "\<not> is_console (toggleFilter_request env f)"
  "\<not> is_error_alert (toggleFilter_request env f)" "toggleFilter_request env f \<noteq> loadFilters_request env"
  "is_io (deleteFilter_request env f)" "\<not> is_console (deleteFilter_request env f)"
  "\<not> is_error_alert (deleteFilter_request env f)" "deleteFilter_request env f \<noteq> loadFilters_request env"
  "is_io (loadFilters_request env)" "\<not> is_console (loadFilters_request env)"
  "\<not> is_error_alert (loadFilters_request env)"
  "\<not> is_io (deleteFilter_confirm f)" "\<not> is_console (deleteFilter_confirm f)"
  "\<not> is_error_alert (deleteFilter_confirm f)"
  by (simp_all add: saveFilter_request_def toggleFilter_request_def deleteFilter_request_def
      loadFilters_request_def deleteFilter_confirm_def effect_preds split: option.splits)

lemma no_io_after_report_append:
  "no_io_after_report (xs @ ys) =
     (no_io_after_report xs \<and> no_io_after_report ys
      \<and> ((\<exists>f \<in> set xs. is_console f \<or> is_error_alert f) \<longrightarrow> filter is_io ys = []))"
  by (induction xs) auto

lemma no_io_after_report_quiet:
  "\<forall>f \<in> set xs. \<not> is_console f \<and> \<not> is_error_alert f \<Longrightarrow> no_io_after_report xs"
  by (induction xs) auto

lemma loadFilters_catch_facts:
  "filter is_io loadFilters_catch = []" "length (filter is_console loadFilters_catch) = 1"
  "length (filter is_error_alert loadFilters_catch) = 1" "no_io_after_report loadFilters_catch"
  by (simp_all add: loadFilters_catch_def effect_preds)

lemma after_reload_one_attempt:
  assumes rq: "is_io rq" "\<not> is_console rq" "\<not> is_error_alert rq" "rq \<noteq> loadFilters_request env"
    and pre: "\<forall>f \<in> set pre. \<not> is_io f \<and> \<not> is_console f \<and> \<not> is_error_alert f"
    and mid: "\<forall>f \<in> set mid. \<not> is_io f \<and> \<not> is_console f \<and> \<not> is_error_alert f"
  shows "one_attempt (pre @ [rq, loadFilters_request env] @ mid @ snd (loadFilters_settle r s))"
proof -
  have fp: "filter is_io pre = []" "filter is_console pre = []" "filter is_error_alert pre = []"
    using pre by (simp_all add: filter_empty_conv)
  have fm: "filter is_io mid = []" "filter is_console mid = []" "filter is_error_alert mid = []"
    using mid by (simp_all add: filter_empty_conv)
  have np: "no_io_after_report pre" "no_io_after_report mid"
    using pre mid by (simp_all add: no_io_after_report_quiet)
  from loadFilters_settle_effects [of r s] show ?thesis
  proof
    assume "snd (loadFilters_settle r s) = []"
    then show ?thesis
      using rq pre mid fp fm np filters_requests(13-15) [of env]
      by (simp add: one_attempt_def no_io_after_report_append)
  next
    assume "snd (loadFilters_settle r s) = loadFilters_catch"
    then show ?thesis
      using rq pre mid fp fm np filters_requests(13-15) [of env] loadFilters_catch_facts
      by (simp add: one_attempt_def no_io_after_report_append)
  qed
qed

lemma quiet_alert:
  "t \<noteq> ''Error'' \<Longrightarrow> t \<noteq> ''Test Error'' \<Longrightarrow> t \<noteq> ''Test Failed'' \<Longrightarrow>
     \<forall>f \<in> set [Alert t m]. \<not> is_io f \<and> \<not> is_console f \<and> \<not> is_error_alert f"
  by (simp add: effect_preds)

lemma request_then_catch:
  assumes "is_io rq" "\<not> is_console rq" "\<not> is_error_alert rq"
    and "\<forall>f \<in> set pre. \<not> is_io f \<and> \<not> is_console f \<and> \<not> is_error_alert f"
  shows "one_attempt (pre @ rq # [Alert t m])"
    and "one_attempt (pre @ rq # [ConsoleError l])"
    and "one_attempt (pre @ rq # [ConsoleError l, Alert t m])"
    and "one_attempt (pre @ [rq])" and "one_attempt pre"
  using assms
  by (simp_all add: one_attempt_def no_io_after_report_append no_io_after_report_quiet filter_empty_conv)
     (simp_all add: effect_preds)

lemma saveFilter_one_attempt: "one_attempt (snd (saveFilter env r rl st))"
proof -
  have ok: "one_attempt (saveFilter_request env st # loadFilters_request env # Alert ''Success'' m
              # snd (loadFilters_settle rl s))" for m s
    using after_reload_one_attempt [OF filters_requests(1-4), of "[]" "[Alert ''Success'' m]" env st rl s]
      quiet_alert [of "''Success''" m]
    by simp
  have bad: "one_attempt (saveFilter_request env st # saveFilter_catch e)" for e
    using request_then_catch(1) [OF filters_requests(1-3), of "[]" env st]
    by (simp add: saveFilter_catch_def)
  have val: "one_attempt [Alert ''Validation Error'' m]" for m
    by (simp add: effect_preds)
  show ?thesis
    unfolding saveFilter_def
    by (simp add: ok bad val case_prod_beta split: outcome.splits sum.splits)
qed

lemma toggleFilter_one_attempt: "one_attempt (snd (toggleFilter env f r rl st))"
proof -
  have ok: "one_attempt (toggleFilter_request env f # loadFilters_request env # snd (loadFilters_settle rl s))" for s
    using after_reload_one_attempt [OF filters_requests(5-8), of "[]" "[]" env f rl s]
    by simp
  have bad: "one_attempt (toggleFilter_request env f # toggleFilter_catch)"
    using request_then_catch(1) [OF filters_requests(5-7), of "[]" env f]
    by (simp add: toggleFilter_catch_def)
  show ?thesis
    unfolding toggleFilter_def
    by (simp add: ok bad case_prod_beta split: outcome.splits)
qed

lemma deleteFilter_one_attempt: "one_attempt (snd (deleteFilter env f c r rl st))"
proof -
  have pre: "\<forall>x \<in> set [deleteFilter_confirm f]. \<not> is_io x \<and> \<not> is_console x \<and> \<not> is_error_alert x"
    by (simp add: filters_requests)
  have ok: "one_attempt (deleteFilter_confirm f # deleteFilter_request env f # loadFilters_request env
              # Alert ''Success'' m # snd (loadFilters_settle rl s))" for s m
    using after_reload_one_attempt [OF filters_requests(9-12) pre, where mid = "[Alert ''Success'' m]" and r = rl and s = s]
      quiet_alert [of "''Success''" m]
    by simp
  have bad: "one_attempt (deleteFilter_confirm f # deleteFilter_request env f # deleteFilter_catch)"
    using request_then_catch(1) [OF filters_requests(9-11) pre]
    by (simp add: deleteFilter_catch_def)
  have no: "one_attempt [deleteFilter_confirm f]"
    using request_then_catch(5) [OF filters_requests(9-11) pre] by simp
  show ?thesis
    unfolding deleteFilter_def
    by (simp add: ok bad no case_prod_beta split: outcome.splits)
qed

lemma loadEmailConfig_one_attempt: "one_attempt (snd (loadEmailConfig env r st))"
  by (auto simp: loadEmailConfig_def loadEmailConfig_request_def loadEmailConfig_catch_def effect_preds
           split: outcome.splits sum.splits option.splits)

lemma saveEmailConfig_one_attempt: "one_attempt (snd (saveEmailConfig env r st))"
  by (auto simp: saveEmailConfig_def saveEmailConfig_request_def saveEmailConfig_catch_def effect_preds
           split: outcome.splits sum.splits)

lemma testEmailConfig_one_attempt: "one_attempt (snd (testEmailConfig env r st))"
  by (auto simp: testEmailConfig_def testEmailConfig_request_def testEmailConfig_catch_def effect_preds
           split: outcome.splits sum.splits)

lemma getProviderPresets_one_attempt: "one_attempt (snd (getProviderPresets p st))"
  by (auto simp: getProviderPresets_def effect_preds split: option.splits)

lemma sendTestSMS_one_attempt: "one_attempt (snd (sendTestSMS env r st))"
  by (auto simp: sendTestSMS_def sendTestSMS_request_def sendTestSMS_catch_def effect_preds
           split: outcome.splits sum.splits)

lemma loadSettings_one_attempt: "one_attempt (snd (loadSettings env i st))"
  by (auto simp: loadSettings_def loadSettings_catch_def effect_preds
           split: outcome.splits sum.splits option.splits)

lemma updateSetting_one_attempt: "one_attempt (snd (updateSetting env k v w st))"
  by (auto simp: updateSetting_def updateSetting_catch_def effect_preds Let_def
           split: outcome.splits)

lemma clearAllData_one_attempt: "one_attempt (clearAllData c w)"
  by (auto simp: clearAllData_def clearAllData_confirm_def clearAllData_remove_def clearAllData_catch_def
           effect_preds split: outcome.splits)

lemma loadDashboardData_one_attempt: "one_attempt (snd (loadDashboardData env i1 i2 i3 st))"
  by (auto simp: loadDashboardData_def loadDashboardData_reads_def loadDashboardData_catch_def effect_preds
           split: outcome.splits sum.splits)

lemma checkServiceStatus_one_attempt: "one_attempt (snd (checkServiceStatus i st))"
  by (auto simp: checkServiceStatus_def checkServiceStatus_catch_def effect_preds split: outcome.splits)

lemma toggleService_one_attempt: "one_attempt (snd (toggleService w st))"
  by (auto simp: toggleService_def toggleService_catch_def effect_preds Let_def split: outcome.splits)

lemma simple_one_attempt:
  "one_attempt []" "one_attempt (clearLogs c)" "one_attempt exportData"
  "one_attempt (openAppPermissions c)" "one_attempt (requestPermissions env c)"
  by (auto simp: clearLogs_def exportData_def openAppPermissions_def requestPermissions_def effect_preds)

lemma snd_on:
  "snd (on_logs h1 a) = snd (h1 (logs_s a))"
  "snd (on_filters h2 a) = snd (h2 (filters_s a))"
  "snd (on_email h3 a) = snd (h3 (email_s a))"
  "snd (on_sms h4 a) = snd (h4 (sms_s a))"
  "snd (on_settings h5 a) = snd (h5 (settings_s a))"
  "snd (on_home h6 a) = snd (h6 (home_s a))"
  by (simp_all add: on_logs_def on_filters_def on_email_def on_sms_def on_settings_def on_home_def
      split: prod.splits)

lemma run_one_attempt: "one_attempt (snd (run env ev a))"
  by (cases ev)
     (simp_all add: snd_on loadData_one_attempt onRefresh_one_attempt loadFilters_one_attempt
        saveFilter_one_attempt toggleFilter_one_attempt deleteFilter_one_attempt
        loadEmailConfig_one_attempt saveEmailConfig_one_attempt testEmailConfig_one_attempt
        getProviderPresets_one_attempt sendTestSMS_one_attempt loadSettings_one_attempt
        updateSetting_one_attempt clearAllData_one_attempt loadDashboardData_one_attempt
        checkServiceStatus_one_attempt toggleService_one_attempt simple_one_attempt)

lemma fst_on:
  "fst (on_logs h1 a) = a\<lparr>logs_s := fst (h1 (logs_s a))\<rparr>"
  "fst (on_filters h2 a) = a\<lparr>filters_s := fst (h2 (filters_s a))\<rparr>"
  "fst (on_email h3 a) = a\<lparr>email_s := fst (h3 (email_s a))\<rparr>"
  "fst (on_sms h4 a) = a\<lparr>sms_s := fst (h4 (sms_s a))\<rparr>"
  "fst (on_settings h5 a) = a\<lparr>settings_s := fst (h5 (settings_s a))\<rparr>"
  "fst (on_home h6 a) = a\<lparr>home_s := fst (h6 (home_s a))\<rparr>"
  by (simp_all add: on_logs_def on_filters_def on_email_def on_sms_def on_settings_def on_home_def
      split: prod.splits)

lemma loadData_flags:
  "\<not> logs_loading (fst (loadData env r1 r2 st)) \<and> \<not> refreshing (fst (loadData env r1 r2 st))"
  by (simp add: loadData_def loadData_finally_def split: outcome.splits)

lemma loadFilters_flags: "\<not> filters_loading (fst (loadFilters env r st))"
  by (simp add: loadFilters_def loadFilters_settle_def case_prod_beta split: outcome.splits)

lemma saveEmailConfig_flags:
  "filter is_io (snd (saveEmailConfig env r st)) \<noteq> [] \<Longrightarrow> \<not> config_loading (fst (saveEmailConfig env r st))"
proof (cases "falsy_field st ''recipient_email'' \<or> (activeTab st = JStr ''smtp''
              \<and> (falsy_field st ''smtp_server'' \<or> falsy_field st ''smtp_username''
                   \<or> falsy_field st ''smtp_password''))")
  case True
  then have "filter is_io (snd (saveEmailConfig env r st)) = []"
    by (auto simp: saveEmailConfig_def is_io_def)
  then show "filter is_io (snd (saveEmailConfig env r st)) \<noteq> [] \<Longrightarrow> ?thesis" by simp
next
  case False
  then have "fst (saveEmailConfig env r st) = st\<lparr>config_loading := False\<rparr>"
    by (auto simp: saveEmailConfig_def split: outcome.splits sum.splits)
  then show ?thesis by simp
qed

lemma testEmailConfig_flags:
  "filter is_io (snd (testEmailConfig env r st)) \<noteq> [] \<Longrightarrow> \<not> testLoading (fst (testEmailConfig env r st))"
proof (cases "falsy_field st ''recipient_email''")
  case True
  then have "filter is_io (snd (testEmailConfig env r st)) = []"
    by (simp add: testEmailConfig_def is_io_def)
  then show "filter is_io (snd (testEmailConfig env r st)) \<noteq> [] \<Longrightarrow> ?thesis" by simp
next
  case False
  then have "fst (testEmailConfig env r st) = st\<lparr>testLoading := False\<rparr>"
    by (simp add: testEmailConfig_def split: outcome.splits sum.splits)
  then show ?thesis by simp
qed

lemma sendTestSMS_flags:
  "filter is_io (snd (sendTestSMS env r st)) \<noteq> [] \<Longrightarrow> \<not> sms_loading (fst (sendTestSMS env r st))"
proof (cases "js_trim (testData_sender st) = [] \<or> js_trim (testData_content st) = []")
  case True
  then have "filter is_io (snd (sendTestSMS env r st)) = []"
    by (auto simp: sendTestSMS_def is_io_def)
  then show "filter is_io (snd (sendTestSMS env r st)) \<noteq> [] \<Longrightarrow> ?thesis" by simp
next
  case False
  then have "fst (sendTestSMS env r st) = st\<lparr>sms_loading := False\<rparr>"
    by (auto simp: sendTestSMS_def split: outcome.splits sum.splits)
  then show ?thesis by simp
qed

lemma run_flags:
  "filter is_io (snd (run env ev a)) \<noteq> [] \<Longrightarrow> flags_reset ev (fst (run env ev a))"
  by (cases ev)
     (simp_all add: snd_on fst_on loadData_flags onRefresh_def loadFilters_flags saveEmailConfig_flags
        testEmailConfig_flags sendTestSMS_flags)

lemma catch_blocks_report_only: "\<forall>c \<in> set (catch_blocks e). report_only c"
  by (simp add: catch_blocks_def report_only_def loadData_catch_def loadFilters_catch_def
      saveFilter_catch_def toggleFilter_catch_def deleteFilter_catch_def loadEmailConfig_catch_def
      saveEmailConfig_catch_def testEmailConfig_catch_def sendTestSMS_catch_def loadSettings_catch_def
      updateSetting_catch_def clearAllData_catch_def loadDashboardData_catch_def
      checkServiceStatus_catch_def toggleService_catch_def)

lemma refresh_same_requests:
  "filter is_io (snd (run env (OnRefresh r1 r2) a)) = loadData_requests env"
  "filter is_io (snd (run env (LoadData r1 r2) a)) = loadData_requests env"
  by (simp_all add: snd_on onRefresh_def loadData_def loadData_requests_def loadData_catch_def is_io_def
      split: outcome.splits)

text \<open>
  Claim C8.  Handling one event never issues the same request or storage call twice, logs
  at most one console error, shows at most one error alert, and issues nothing once an
  error has been reported; when the handler has issued its request, the loading and
  refreshing flags it owns are off afterwards; every catch block is one console error, one
  alert, or the two in that order; and the manual refresh issues the requests of the
  initial load.  A request is therefore only ever repeated by a further event: a press,
  a pull to refresh, or a mount.
\<close>

theorem no_automatic_retry:
  "one_attempt (snd (run env ev a))
   \<and> (filter is_io (snd (run env ev a)) \<noteq> [] \<longrightarrow> flags_reset ev (fst (run env ev a)))
   \<and> (\<forall>c \<in> set (catch_blocks e). report_only c)
   \<and> filter is_io (snd (run env (OnRefresh r1 r2) a)) = filter is_io (snd (run env (LoadData r1' r2') a'))"
proof (intro conjI)
  show "one_attempt (snd (run env ev a))"
    by (rule run_one_attempt)
  show "filter is_io (snd (run env ev a)) \<noteq> [] \<longrightarrow> flags_reset ev (fst (run env ev a))"
    using run_flags [of env ev a] by blast
  show "\<forall>c \<in> set (catch_blocks e). report_only c"
    by (rule catch_blocks_report_only)
  show "filter is_io (snd (run env (OnRefresh r1 r2) a)) = filter is_io (snd (run env (LoadData r1' r2') a'))"
    by (simp only: refresh_same_requests)
qed

theorem no_automatic_retry_witness:
  "snd (run example_env (LoadData (Rejected network_down) (Rejected network_down)) app_initial)
     = [Fetch GET ''http://localhost:8001/api/sms/messages'' None,
        Fetch GET ''http://localhost:8001/api/sms/stats'' None,
        ConsoleError ''Failed to load data:'', Alert ''Error'' ''Failed to load SMS logs'']
   \<and> filter is_io (snd (run example_env (LoadData (Rejected network_down) (Rejected network_down)) app_initial)) \<noteq> []
   \<and> logs_loading (logs_s app_initial)
   \<and> \<not> logs_loading (logs_s (fst (run example_env (LoadData (Rejected network_down) (Rejected network_down)) app_initial)))
   \<and> \<not> refreshing (logs_s (fst (run example_env (LoadData (Rejected network_down) (Rejected network_down)) app_initial)))
   \<and> report_only loadData_catch"
proof -
  have tr: "snd (run example_env (LoadData (Rejected network_down) (Rejected network_down)) app_initial)
     = [Fetch GET ''http://localhost:8001/api/sms/messages'' None,
        Fetch GET ''http://localhost:8001/api/sms/stats'' None,
        ConsoleError ''Failed to load data:'', Alert ''Error'' ''Failed to load SMS logs'']"
    by (simp add: snd_on loadData_def loadData_requests_def loadData_catch_def example_env_def)
  have io: "filter is_io (snd (run example_env (LoadData (Rejected network_down) (Rejected network_down)) app_initial)) \<noteq> []"
    unfolding tr by (simp add: is_io_def)
  have init: "logs_loading (logs_s app_initial)"
    by (simp add: app_initial_def logs_initial_def)
  have cb: "loadData_catch \<in> set (catch_blocks network_down)"
    by (simp add: catch_blocks_def)
  show ?thesis
    using no_automatic_retry [of example_env "LoadData (Rejected network_down) (Rejected network_down)"
        app_initial network_down] tr io init cb
    by auto
qed

subsection \<open>The endpoints\<close>

lemma allowed_simps:
  "allowed env (Alert t m)" "allowed env (ConsoleError l)" "allowed env (StorageGet k)"
  "allowed env (StorageSet k v)" "allowed env (StorageMultiRemove ks)" "allowed env OpenSettings"
  by (simp_all add: allowed_def request_of_def)

lemma allowed_requests:
  "allowed env (loadFilters_request env)" "allowed env (saveFilter_request env fs)"
  "allowed env (toggleFilter_request env f)" "allowed env (deleteFilter_request env f)"
  "allowed env (loadEmailConfig_request env)" "allowed env (saveEmailConfig_request env est)"
  "allowed env (testEmailConfig_request env est)" "allowed env (sendTestSMS_request env sst)"
  "\<forall>x \<in> set (loadData_requests env). allowed env x"
  by (auto simp: allowed_def request_of_def endpoints_def loadFilters_request_def saveFilter_request_def
      toggleFilter_request_def deleteFilter_request_def loadEmailConfig_request_def
      saveEmailConfig_request_def testEmailConfig_request_def sendTestSMS_request_def
      loadData_requests_def split: option.splits)

lemma allowed_catches:
  "\<forall>x \<in> set loadData_catch. allowed env x" "\<forall>x \<in> set loadFilters_catch. allowed env x"
  "\<forall>x \<in> set (saveFilter_catch e). allowed env x" "\<forall>x \<in> set toggleFilter_catch. allowed env x"
  "\<forall>x \<in> set deleteFilter_catch. allowed env x" "\<forall>x \<in> set loadEmailConfig_catch. allowed env x"
  "\<forall>x \<in> set (saveEmailConfig_catch e). allowed env x" "\<forall>x \<in> set (testEmailConfig_catch e). allowed env x"
  "\<forall>x \<in> set (sendTestSMS_catch e). allowed env x" "\<forall>x \<in> set loadSettings_catch. allowed env x"
  "\<forall>x \<in> set updateSetting_catch. allowed env x" "\<forall>x \<in> set clearAllData_catch. allowed env x"
  "\<forall>x \<in> set loadDashboardData_catch. allowed env x" "\<forall>x \<in> set checkServiceStatus_catch. allowed env x"
  "\<forall>x \<in> set toggleService_catch. allowed env x"
  "allowed env (deleteFilter_confirm f)" "allowed env clearAllData_confirm" "allowed env clearAllData_remove"
  "\<forall>x \<in> set loadDashboardData_reads. allowed env x"
  by (simp_all add: allowed_simps loadData_catch_def loadFilters_catch_def
      saveFilter_catch_def toggleFilter_catch_def deleteFilter_catch_def loadEmailConfig_catch_def
      saveEmailConfig_catch_def testEmailConfig_catch_def sendTestSMS_catch_def loadSettings_catch_def
      updateSetting_catch_def clearAllData_catch_def loadDashboardData_catch_def
      checkServiceStatus_catch_def toggleService_catch_def deleteFilter_confirm_def
      clearAllData_confirm_def clearAllData_remove_def loadDashboardData_reads_def)

lemma loadFilters_settle_allowed: "\<forall>x \<in> set (snd (loadFilters_settle r s)). allowed env x"
  using loadFilters_settle_effects [of r s] allowed_catches(2) [of env] by auto

lemmas allowed_facts = allowed_simps allowed_requests allowed_catches loadFilters_settle_allowed ball_Un

lemma handlers_allowed:
  "\<forall>x \<in> set (snd (loadData env r1 r2 lst)). allowed env x"
  "\<forall>x \<in> set (snd (onRefresh env r1 r2 lst)). allowed env x"
  "\<forall>x \<in> set (snd (loadFilters env r fs)). allowed env x"
  "\<forall>x \<in> set (snd (saveFilter env r rl fs)). allowed env x"
  "\<forall>x \<in> set (snd (toggleFilter env f r rl fs)). allowed env x"
  "\<forall>x \<in> set (snd (deleteFilter env f c r rl fs)). allowed env x"
  "\<forall>x \<in> set (snd (loadEmailConfig env r est)). allowed env x"
  "\<forall>x \<in> set (snd (saveEmailConfig env r est)). allowed env x"
  "\<forall>x \<in> set (snd (testEmailConfig env r est)). allowed env x"
  "\<forall>x \<in> set (snd (getProviderPresets p est)). allowed env x"
  "\<forall>x \<in> set (snd (sendTestSMS env r sst)). allowed env x"
  "\<forall>x \<in> set (snd (loadSettings env i sest)). allowed env x"
  "\<forall>x \<in> set (snd (updateSetting env k v w sest)). allowed env x"
  "\<forall>x \<in> set (clearAllData c w). allowed env x"
  "\<forall>x \<in> set (snd (loadDashboardData env i1 i2 i3 hst)). allowed env x"
  "\<forall>x \<in> set (snd (checkServiceStatus i hst)). allowed env x"
  "\<forall>x \<in> set (snd (toggleService w hst)). allowed env x"
  "\<forall>x \<in> set (clearLogs c). allowed env x"
  "\<forall>x \<in> set exportData. allowed env x"
  "\<forall>x \<in> set (openAppPermissions c). allowed env x"
  "\<forall>x \<in> set (requestPermissions env c). allowed env x"
  by (simp_all add: loadData_def onRefresh_def loadFilters_def saveFilter_def toggleFilter_def
      deleteFilter_def loadEmailConfig_def saveEmailConfig_def testEmailConfig_def
      getProviderPresets_def sendTestSMS_def loadSettings_def updateSetting_def clearAllData_def
      loadDashboardData_def checkServiceStatus_def toggleService_def clearLogs_def exportData_def
      openAppPermissions_def requestPermissions_def allowed_facts case_prod_beta Let_def
      split: outcome.splits sum.splits option.splits)
     (auto simp: allowed_simps)

lemma run_allowed: "\<forall>x \<in> set (snd (run env ev a)). allowed env x"
  by (cases ev) (simp_all add: snd_on handlers_allowed)

lemma requests_of_allowed:
  "\<forall>x \<in> set tr. allowed env x \<Longrightarrow> set (requests_of tr) \<subseteq> endpoints env"
  by (auto simp: requests_of_def map_filter_def allowed_def split: option.splits)

lemma issued_subset: "issued env \<subseteq> endpoints env"
  using requests_of_allowed [OF run_allowed] by (auto simp: issued_def)

lemma requests_of_simps:
  "requests_of [] = []"
  "requests_of (Fetch m u b # tr) = (m, u) # requests_of tr"
  "requests_of (Alert t msg # tr) = requests_of tr"
  "requests_of (ConsoleError l # tr) = requests_of tr"
  by (simp_all add: requests_of_def map_filter_simps request_of_def)

lemma issuedI: "r \<in> set (requests_of (snd (run env ev a))) \<Longrightarrow> r \<in> issued env"
  by (auto simp: issued_def)

lemma endpoints_issued:
  "(POST, backendUrl env @ ''/api/sms/forward'') \<in> issued env"
  "(GET, backendUrl env @ ''/api/sms/messages'') \<in> issued env"
  "(GET, backendUrl env @ ''/api/sms/stats'') \<in> issued env"
  "(GET, backendUrl env @ ''/api/filters'') \<in> issued env"
  "(POST, backendUrl env @ ''/api/filters'') \<in> issued env"
  "(GET, backendUrl env @ ''/api/email/config'') \<in> issued env"
  "(POST, backendUrl env @ ''/api/email/config'') \<in> issued env"
  "(POST, backendUrl env @ ''/api/email/test'') \<in> issued env"
  "(PUT, backendUrl env @ ''/api/filters/'' @ i) \<in> issued env"
  "(DELETE, backendUrl env @ ''/api/filters/'' @ i) \<in> issued env"
proof -
  have t: "js_trim ''a'' = ''a''" by (simp add: js_trim_def is_ws_def)
  let ?e = "Rejected network_down"
  show "(POST, backendUrl env @ ''/api/sms/forward'') \<in> issued env"
    by (rule issuedI [of _ env "SendTestSMS ?e"
          "app_initial\<lparr>sms_s := \<lparr>testData_sender = ''a'', testData_content = ''a'', sms_loading = False\<rparr>\<rparr>"])
       (simp add: snd_on sendTestSMS_def sendTestSMS_request_def sendTestSMS_catch_def t requests_of_simps)
  show "(GET, backendUrl env @ ''/api/sms/messages'') \<in> issued env"
    by (rule issuedI [of _ env "LoadData ?e ?e" app_initial])
       (simp add: snd_on loadData_def loadData_requests_def loadData_catch_def requests_of_simps)
  show "(GET, backendUrl env @ ''/api/sms/stats'') \<in> issued env"
    by (rule issuedI [of _ env "LoadData ?e ?e" app_initial])
       (simp add: snd_on loadData_def loadData_requests_def loadData_catch_def requests_of_simps)
  show "(GET, backendUrl env @ ''/api/filters'') \<in> issued env"
    by (rule issuedI [of _ env "LoadFilters ?e" app_initial])
       (simp add: snd_on loadFilters_def loadFilters_settle_def loadFilters_request_def
          loadFilters_catch_def requests_of_simps)
  show "(POST, backendUrl env @ ''/api/filters'') \<in> issued env"
    by (rule issuedI [of _ env "SaveFilter ?e ?e"
          "app_initial\<lparr>filters_s := example_filters_screen ''a'' ''all'' []\<rparr>"])
       (simp add: snd_on saveFilter_def saveFilter_request_def saveFilter_catch_def t
          example_filters_screen_def filters_initial_def requests_of_simps)
  show "(GET, backendUrl env @ ''/api/email/config'') \<in> issued env"
    by (rule issuedI [of _ env "LoadEmailConfig ?e" app_initial])
       (simp add: snd_on loadEmailConfig_def loadEmailConfig_request_def loadEmailConfig_catch_def
          requests_of_simps)
  have rc: "\<not> falsy_field (example_email_screen ''device'') ''recipient_email''"
    by (simp add: example_email_screen_def setActiveTab_def setConfigText_def
        falsy_field_def email_initial_def config_initial_def truthy_opt_def)
  have tab: "activeTab (example_email_screen ''device'') \<noteq> JStr ''smtp''"
    by (simp add: example_email_screen_def setActiveTab_def)
  show "(POST, backendUrl env @ ''/api/email/config'') \<in> issued env"
    by (rule issuedI [of _ env "SaveEmailConfig ?e" "app_initial\<lparr>email_s := example_email_screen ''device''\<rparr>"])
       (simp add: snd_on saveEmailConfig_def saveEmailConfig_request_def saveEmailConfig_catch_def
          rc tab requests_of_simps)
  show "(POST, backendUrl env @ ''/api/email/test'') \<in> issued env"
    by (rule issuedI [of _ env "TestEmailConfig ?e" "app_initial\<lparr>email_s := example_email_screen ''device''\<rparr>"])
       (simp add: snd_on testEmailConfig_def testEmailConfig_request_def testEmailConfig_catch_def
          rc requests_of_simps)
  show "(PUT, backendUrl env @ ''/api/filters/'' @ i) \<in> issued env"
    by (rule issuedI [of _ env "ToggleFilter (example_filter i) ?e ?e" app_initial])
       (simp add: snd_on toggleFilter_def toggleFilter_request_def toggleFilter_catch_def
          example_filter_def requests_of_simps)
  show "(DELETE, backendUrl env @ ''/api/filters/'' @ i) \<in> issued env"
    by (rule issuedI [of _ env "DeleteFilter (example_filter i) True ?e ?e" app_initial])
       (simp add: snd_on deleteFilter_def deleteFilter_request_def deleteFilter_catch_def
          deleteFilter_confirm_def example_filter_def requests_of_simps)
qed

text \<open>
  Claim C2.  The pairs of method and URL requested by the handlers of all screens, over all
  events and states, are exactly: POST /api/sms/forward, GET /api/sms/messages,
  GET /api/sms/stats, GET and POST /api/filters, PUT and DELETE /api/filters/:id for every
  id, GET and POST /api/email/config and POST /api/email/test, each under the backend URL.
\<close>

theorem issued_requests_are_the_endpoints: "issued env = endpoints env"
proof
  show "issued env \<subseteq> endpoints env" by (rule issued_subset)
  show "endpoints env \<subseteq> issued env"
    using endpoints_issued [of env] by (auto simp: endpoints_def)
qed

subsection \<open>How failures are reported\<close>

lemma rejectedE: "rejected r \<Longrightarrow> (\<And>e. r = Rejected e \<Longrightarrow> P) \<Longrightarrow> P"
  by (cases r) (simp_all add: rejected_def)

lemma not_okE: "not_ok r \<Longrightarrow> (\<And>x. r = Fulfilled x \<Longrightarrow> \<not> ok x \<Longrightarrow> P) \<Longrightarrow> P"
  by (cases r) (simp_all add: not_ok_def)

lemma error_alert_simps:
  "is_error_alert (Alert ''Error'' m)" "is_error_alert (Alert ''Test Error'' m)"
  "\<not> is_error_alert (ConsoleError l)" "\<not> is_io (Alert t m)" "\<not> is_io (ConsoleError l)"
  "is_alert (Alert t m)" "\<not> is_alert (ConsoleError l)" "\<not> is_alert (Fetch me u b)"
  "\<not> is_alert (StorageGet k)" "\<not> is_alert (StorageSet k v)" "\<not> is_alert (StorageMultiRemove ks)"
  by (simp_all add: effect_preds)

lemma catches_alert:
  "\<exists>f \<in> set loadData_catch. is_error_alert f" "\<exists>f \<in> set loadFilters_catch. is_error_alert f"
  "\<exists>f \<in> set (saveFilter_catch e). is_error_alert f" "\<exists>f \<in> set toggleFilter_catch. is_error_alert f"
  "\<exists>f \<in> set deleteFilter_catch. is_error_alert f" "\<exists>f \<in> set (saveEmailConfig_catch e). is_error_alert f"
  "\<exists>f \<in> set (testEmailConfig_catch e). is_error_alert f" "\<exists>f \<in> set (sendTestSMS_catch e). is_error_alert f"
  "\<exists>f \<in> set updateSetting_catch. is_error_alert f" "\<exists>f \<in> set clearAllData_catch. is_error_alert f"
  "\<exists>f \<in> set toggleService_catch. is_error_alert f"
  by (simp_all add: error_alert_simps loadData_catch_def loadFilters_catch_def saveFilter_catch_def
      toggleFilter_catch_def deleteFilter_catch_def saveEmailConfig_catch_def testEmailConfig_catch_def
      sendTestSMS_catch_def updateSetting_catch_def clearAllData_catch_def toggleService_catch_def)

lemma threw_alerts:
  "rejected r1 \<or> rejected r2 \<Longrightarrow> \<exists>f \<in> set (snd (loadData env r1 r2 lst)). is_error_alert f"
  "rejected r \<Longrightarrow> \<exists>f \<in> set (snd (loadFilters env r fs)). is_error_alert f"
  "rejected r \<or> not_ok r \<Longrightarrow> \<exists>f \<in> set (snd (toggleFilter env f r rl fs)). is_error_alert f"
  "rejected w \<Longrightarrow> \<exists>f \<in> set (snd (updateSetting env k v w sest)). is_error_alert f"
  "rejected w \<Longrightarrow> \<exists>f \<in> set (snd (toggleService w hst)). is_error_alert f"
  using catches_alert(1,2,4,9,11)
  by (auto elim!: rejectedE not_okE
        simp: loadData_def loadFilters_def loadFilters_settle_def toggleFilter_def updateSetting_def
          toggleService_def Let_def
        split: outcome.splits)

lemma saveFilter_alerts:
  assumes "rejected r \<or> not_ok r" and "filter is_io (snd (saveFilter env r rl fs)) \<noteq> []"
  shows "\<exists>f \<in> set (snd (saveFilter env r rl fs)). is_error_alert f"
proof -
  have v: "\<not> (js_trim (form_name (formData fs)) = [])"
    "\<not> (form_filter_type (formData fs) \<noteq> ''all'' \<and> js_trim (form_filter_value (formData fs)) = [])"
    using assms(2) by (auto simp: saveFilter_def error_alert_simps)
  have "\<exists>e. snd (saveFilter env r rl fs) = saveFilter_request env fs # saveFilter_catch e"
    using assms(1) v
    by (auto elim!: rejectedE not_okE simp: saveFilter_def split: outcome.splits sum.splits)
  then show ?thesis using catches_alert(3) by auto
qed

lemma deleteFilter_alerts:
  assumes "rejected r \<or> not_ok r" and "filter is_io (snd (deleteFilter env f c r rl fs)) \<noteq> []"
  shows "\<exists>x \<in> set (snd (deleteFilter env f c r rl fs)). is_error_alert x"
proof -
  have c
  proof (rule ccontr)
    assume "\<not> c"
    then have "filter is_io (snd (deleteFilter env f c r rl fs)) = []"
      by (simp add: deleteFilter_def filters_requests(16))
    with assms(2) show False by simp
  qed
  then have "snd (deleteFilter env f c r rl fs)
             = [deleteFilter_confirm f, deleteFilter_request env f] @ deleteFilter_catch"
    using assms(1) by (auto elim!: rejectedE not_okE simp: deleteFilter_def)
  then show ?thesis using catches_alert(5) by auto
qed

lemma saveEmailConfig_alerts:
  assumes "rejected r \<or> not_ok r" and "filter is_io (snd (saveEmailConfig env r est)) \<noteq> []"
  shows "\<exists>f \<in> set (snd (saveEmailConfig env r est)). is_error_alert f"
proof -
  have v: "\<not> falsy_field est ''recipient_email''"
    "\<not> (activeTab est = JStr ''smtp''
              \<and> (falsy_field est ''smtp_server'' \<or> falsy_field est ''smtp_username''
                   \<or> falsy_field est ''smtp_password''))"
    using assms(2) by (auto simp: saveEmailConfig_def error_alert_simps)
  have "\<exists>e. snd (saveEmailConfig env r est) = saveEmailConfig_request env est # saveEmailConfig_catch e"
    using assms(1) v
    by (auto elim!: rejectedE not_okE simp: saveEmailConfig_def split: outcome.splits sum.splits)
  then show ?thesis using catches_alert(6) by auto
qed

lemma testEmailConfig_alerts:
  assumes "rejected r" and "filter is_io (snd (testEmailConfig env r est)) \<noteq> []"
  shows "\<exists>f \<in> set (snd (testEmailConfig env r est)). is_error_alert f"
proof -
  have v: "\<not> falsy_field est ''recipient_email''"
    using assms(2) by (auto simp: testEmailConfig_def error_alert_simps)
  have "\<exists>e. snd (testEmailConfig env r est) = testEmailConfig_request env est # testEmailConfig_catch e"
    using assms(1) v by (auto elim!: rejectedE simp: testEmailConfig_def)
  then show ?thesis using catches_alert(7) by auto
qed

lemma sendTestSMS_alerts:
  assumes "rejected r \<or> not_ok r" and "filter is_io (snd (sendTestSMS env r sst)) \<noteq> []"
  shows "\<exists>f \<in> set (snd (sendTestSMS env r sst)). is_error_alert f"
proof -
  have v: "\<not> (js_trim (testData_sender sst) = [] \<or> js_trim (testData_content sst) = [])"
    using assms(2) by (auto simp: sendTestSMS_def error_alert_simps)
  have "\<exists>e. snd (sendTestSMS env r sst) = sendTestSMS_request env sst # sendTestSMS_catch e"
    using assms(1) v
    by (auto elim!: rejectedE not_okE simp: sendTestSMS_def split: outcome.splits sum.splits)
  then show ?thesis using catches_alert(8) by auto
qed

lemma clearAllData_alerts:
  assumes "rejected w" and "filter is_io (clearAllData c w) \<noteq> []"
  shows "\<exists>f \<in> set (clearAllData c w). is_error_alert f"
proof -
  have c
  proof (rule ccontr)
    assume "\<not> c"
    then have "filter is_io (clearAllData c w) = []"
      by (simp add: clearAllData_def clearAllData_confirm_def error_alert_simps)
    with assms(2) show False by simp
  qed
  then have "clearAllData c w = [clearAllData_confirm, clearAllData_remove] @ clearAllData_catch"
    using assms(1) by (auto elim!: rejectedE simp: clearAllData_def)
  then show ?thesis using catches_alert(10) by auto
qed

lemmas validated_alerts = saveFilter_alerts deleteFilter_alerts saveEmailConfig_alerts
  testEmailConfig_alerts sendTestSMS_alerts clearAllData_alerts

lemma threw_console:
  "rejected r \<Longrightarrow> snd (loadEmailConfig env r est) = loadEmailConfig_request env # loadEmailConfig_catch"
  "rejected i \<Longrightarrow> snd (loadSettings env i sest) = StorageGet ''app_settings'' # loadSettings_catch"
  "rejected i1 \<or> rejected i2 \<or> rejected i3 \<Longrightarrow>
     snd (loadDashboardData env i1 i2 i3 hst) = loadDashboardData_reads @ loadDashboardData_catch"
  "rejected i \<Longrightarrow> snd (checkServiceStatus i hst) = StorageGet ''service_status'' # checkServiceStatus_catch"
  by (auto elim!: rejectedE
        simp: loadEmailConfig_def loadSettings_def loadDashboardData_def checkServiceStatus_def
        split: outcome.splits)

lemma console_only_reported:
  "reported (LoadEmailConfig r) (loadEmailConfig_request env # loadEmailConfig_catch)"
  "reported (LoadSettings i) (StorageGet ''app_settings'' # loadSettings_catch)"
  "reported (LoadDashboardData i1 i2 i3) (loadDashboardData_reads @ loadDashboardData_catch)"
  "reported (CheckServiceStatus i) (StorageGet ''service_status'' # checkServiceStatus_catch)"
  by (simp_all add: reported_def loadEmailConfig_request_def loadEmailConfig_catch_def
      loadSettings_catch_def loadDashboardData_reads_def loadDashboardData_catch_def
      checkServiceStatus_catch_def error_alert_simps)

lemma run_threw_reported:
  "call_threw ev \<Longrightarrow> filter is_io (snd (run env ev a)) \<noteq> [] \<Longrightarrow> reported ev (snd (run env ev a))"
  by (cases ev)
     (simp_all add: snd_on threw_console console_only_reported,
      simp_all add: reported_def threw_alerts validated_alerts onRefresh_def)

lemma run_not_ok_reported:
  "response_not_ok ev \<Longrightarrow> filter is_io (snd (run env ev a)) \<noteq> []
     \<Longrightarrow> \<exists>f \<in> set (snd (run env ev a)). is_error_alert f"
  by (cases ev) (simp_all add: snd_on threw_alerts validated_alerts)

lemma reload_alerts:
  "rejected rl \<Longrightarrow> \<exists>f \<in> set (snd (loadFilters_settle rl s)). is_error_alert f"
  using catches_alert(2) by (auto elim!: rejectedE simp: loadFilters_settle_def)

lemma reload_in_trace:
  "rejected rl \<Longrightarrow> loadFilters_request env \<in> set (snd (saveFilter env r rl fs))
     \<Longrightarrow> \<exists>x \<in> set (snd (saveFilter env r rl fs)). is_error_alert x"
  "rejected rl \<Longrightarrow> loadFilters_request env \<in> set (snd (toggleFilter env f r rl fs))
     \<Longrightarrow> \<exists>x \<in> set (snd (toggleFilter env f r rl fs)). is_error_alert x"
  "rejected rl \<Longrightarrow> loadFilters_request env \<in> set (snd (deleteFilter env f c r rl fs))
     \<Longrightarrow> \<exists>x \<in> set (snd (deleteFilter env f c r rl fs)). is_error_alert x"
  using catches_alert(3) catches_alert(4,5) reload_alerts [of rl]
  by (auto simp: saveFilter_def toggleFilter_def deleteFilter_def case_prod_beta loadFilters_request_def
        deleteFilter_confirm_def
      split: outcome.splits sum.splits if_splits)

lemma run_reload_reported:
  "reload_threw ev \<Longrightarrow> loadFilters_request env \<in> set (snd (run env ev a))
     \<Longrightarrow> \<exists>f \<in> set (snd (run env ev a)). is_error_alert f"
  by (cases ev) (simp_all add: snd_on reload_in_trace)

text \<open>
  Claim C1, as amended.  When the fetch or storage call of an operation throws, the failure
  is reported: loadEmailConfig, loadSettings, loadDashboardData and checkServiceStatus log
  it to the console and show no alert; every other operation shows an error alert.  A
  response that is not ok is shown as an error alert by the operations that test
  response.ok (saveFilter, toggleFilter, deleteFilter, saveEmailConfig, sendTestSMS), and
  so is a failure of the reload of the filters that follows a successful change.
\<close>

theorem failures_reported_by_alert_or_console:
  "(call_threw ev \<and> filter is_io (snd (run env ev a)) \<noteq> [] \<longrightarrow> reported ev (snd (run env ev a)))
   \<and> (response_not_ok ev \<and> filter is_io (snd (run env ev a)) \<noteq> []
        \<longrightarrow> (\<exists>f \<in> set (snd (run env ev a)). is_error_alert f))
   \<and> (reload_threw ev \<and> loadFilters_request env \<in> set (snd (run env ev a))
        \<longrightarrow> (\<exists>f \<in> set (snd (run env ev a)). is_error_alert f))"
  using run_threw_reported [of ev env a] run_not_ok_reported [of ev env a]
    run_reload_reported [of ev env a]
  by blast

text \<open>
  Claim C1 as stated fails: when the request of loadEmailConfig throws, the handler logs to
  the console and no alert is shown.
\<close>

theorem load_failure_without_alert:
  "snd (run example_env (LoadEmailConfig (Rejected network_down)) app_initial)
     = [Fetch GET ''http://localhost:8001/api/email/config'' None,
        ConsoleError ''Failed to load email config:'']
   \<and> filter is_alert (snd (run example_env (LoadEmailConfig (Rejected network_down)) app_initial)) = []"
  by (simp add: snd_on loadEmailConfig_def loadEmailConfig_request_def loadEmailConfig_catch_def
      example_env_def is_alert_def)

theorem failures_reported_by_alert_or_console_witness:
  "call_threw (LoadData (Rejected network_down) (Rejected network_down))
   \<and> filter is_io (snd (run example_env (LoadData (Rejected network_down) (Rejected network_down)) app_initial)) \<noteq> []
   \<and> Alert ''Error'' ''Failed to load SMS logs''
        \<in> set (snd (run example_env (LoadData (Rejected network_down) (Rejected network_down)) app_initial))
   \<and> call_threw (CheckServiceStatus (Rejected network_down))
   \<and> snd (run example_env (CheckServiceStatus (Rejected network_down)) app_initial)
        = [StorageGet ''service_status'', ConsoleError ''Error checking service status:'']
   \<and> reported (CheckServiceStatus (Rejected network_down))
        (snd (run example_env (CheckServiceStatus (Rejected network_down)) app_initial))
   \<and> response_not_ok (ToggleFilter (example_filter ''7'') (error_response JNull) (Rejected network_down))
   \<and> snd (run example_env (ToggleFilter (example_filter ''7'') (error_response JNull) (Rejected network_down)) app_initial)
        = [Fetch PUT ''http://localhost:8001/api/filters/7'' (Some (JObj [(''enabled'', JBool False)])),
           Alert ''Error'' ''Failed to toggle filter'']"
proof -
  let ?e = "Rejected network_down"
  have a: "snd (run example_env (LoadData ?e ?e) app_initial)
     = [Fetch GET ''http://localhost:8001/api/sms/messages'' None,
        Fetch GET ''http://localhost:8001/api/sms/stats'' None,
        ConsoleError ''Failed to load data:'', Alert ''Error'' ''Failed to load SMS logs'']"
    by (simp add: snd_on loadData_def loadData_requests_def loadData_catch_def example_env_def)
  have b: "snd (run example_env (CheckServiceStatus ?e) app_initial)
        = [StorageGet ''service_status'', ConsoleError ''Error checking service status:'']"
    by (simp add: snd_on checkServiceStatus_def checkServiceStatus_catch_def)
  have c: "snd (run example_env (ToggleFilter (example_filter ''7'') (error_response JNull) ?e) app_initial)
        = [Fetch PUT ''http://localhost:8001/api/filters/7'' (Some (JObj [(''enabled'', JBool False)])),
           Alert ''Error'' ''Failed to toggle filter'']"
    by (simp add: snd_on toggleFilter_def toggleFilter_request_def toggleFilter_catch_def
        error_response_def example_filter_def example_env_def)
  have t: "call_threw (LoadData ?e ?e)" "call_threw (CheckServiceStatus ?e)"
    "response_not_ok (ToggleFilter (example_filter ''7'') (error_response JNull) ?e)"
    by (simp_all add: rejected_def not_ok_def error_response_def)
  have io: "filter is_io (snd (run example_env (LoadData ?e ?e) app_initial)) \<noteq> []"
    "filter is_io (snd (run example_env (CheckServiceStatus ?e) app_initial)) \<noteq> []"
    unfolding a b by (simp_all add: is_io_def)
  have r: "reported (CheckServiceStatus ?e) (snd (run example_env (CheckServiceStatus ?e) app_initial))"
    using failures_reported_by_alert_or_console [of "CheckServiceStatus ?e" example_env app_initial] t io
    by blast
  have m: "Alert ''Error'' ''Failed to load SMS logs'' \<in> set (snd (run example_env (LoadData ?e ?e) app_initial))"
    unfolding a by simp
  from t io r m b c show ?thesis by (intro conjI)
qed

end
